theory Spec2Isabelle
  imports Complex_Main "HOL-Library.Sublist"
begin

section \<open>JavaScript values used by the game and provider code\<close>

text \<open>
  Arrays are lists. Reading an array outside its bounds gives the JavaScript value
  \<open>undefined\<close>, which is \<open>None\<close> here. Strings are lists of characters (code units
  below 256).
\<close>

definition js_nth :: "'a list \<Rightarrow> int \<Rightarrow> 'a option" where
  "js_nth xs i = (if 0 \<le> i \<and> i < int (length xs) then Some (xs ! nat i) else None)"

text \<open>
  A number is a rational: every finite number of JavaScript is one. \<open>NaN\<close> and the
  infinities are no values here; the schemas of the moves, \<open>z.number()\<close> with a least and
  a greatest value, admit neither. Loop counters are integers.
\<close>

type_synonym number = rat

definition isInteger :: "number \<Rightarrow> bool" where
  "isInteger n = (of_int \<lfloor>n\<rfloor> = n)"

text \<open>
  \<open>xs[n]\<close> for a number \<open>n\<close>: a number that is not an integer names no element of an
  array, and the value is \<open>undefined\<close>.
\<close>

definition js_at :: "'a list \<Rightarrow> number \<Rightarrow> 'a option" where
  "js_at xs n = (if isInteger n then js_nth xs \<lfloor>n\<rfloor> else None)"

text \<open>Truthiness of a string-or-undefined value: \<open>undefined\<close> and the empty string are falsy.\<close>

definition truthy :: "string option \<Rightarrow> bool" where
  "truthy v = (case v of None \<Rightarrow> False | Some s \<Rightarrow> s \<noteq> [])"

text \<open>Values a function can throw.\<close>

datatype js_error = TypeError | Error string

section \<open>Game state (types/game.ts)\<close>

datatype GameStatus = waiting | in_progress | completed | paused

datatype GameMode = vs_ai | vs_human | multiplayer | solo

text \<open>
  \<open>BaseGameState\<close>. Dates are numbers of milliseconds. The optional field
  \<open>currentPlayer\<close> is declared by each game with its own type.
\<close>

record BaseGameState =
  state_id :: string
  gameType :: string
  status :: GameStatus
  mode :: GameMode
  game_winner :: "string option"
  gameOver :: bool
  createdAt :: nat
  lastMove :: "nat option"

text \<open>The result of \<open>checkGameEnd\<close>: \<open>{ isEnded, winner? }\<close>.\<close>

record GameEnd =
  isEnded :: bool
  winner :: "string option"

section \<open>Tic-tac-toe (games/tictactoe-llm.ts)\<close>

datatype TicTacPlayer = PlayerX | PlayerO

fun symbol :: "TicTacPlayer \<Rightarrow> string" where
  "symbol PlayerX = ''X''"
| "symbol PlayerO = ''O''"

text \<open>
  Both games extend \<open>BaseGameState\<close> with a board and the player to move. The board
  type is a parameter: it is an array of rows of cells where the functions work on
  values, and an address where they work on a store of arrays.
\<close>

record ('b, 'p) BoardGameState = BaseGameState +
  board :: 'b
  currentPlayer :: 'p

type_synonym 'b TicTacToeLLMGameState = "('b, TicTacPlayer) BoardGameState"

text \<open>
  \<open>MovePosition\<close>: \<open>row\<close> and \<open>col\<close> are numbers. The move schema asks for no more than
  \<open>z.number().min(0).max(2)\<close>, so a position with the row 0.5 passes it.
\<close>

record MovePosition =
  row :: number
  col :: number

type_synonym TicTacBoardState = "string list list"

text \<open>
  \<open>TicTacBoardState\<close> is the tuple type of three rows of three strings, so
  \<open>board[0]\<close>, \<open>board[1]\<close> and \<open>board[2]\<close> are rows.
\<close>

definition wf_tictac :: "TicTacBoardState \<Rightarrow> bool" where
  "wf_tictac b = (length b = 3 \<and> list_all (\<lambda>r. length r = 3) b)"

text \<open>\<open>board[r][c]\<close>, \<open>undefined\<close> outside the board.\<close>

definition cell :: "'a list list \<Rightarrow> int \<Rightarrow> int \<Rightarrow> 'a option" where
  "cell b r c = (case js_nth b r of None \<Rightarrow> None | Some cells \<Rightarrow> js_nth cells c)"

text \<open>
  \<open>isValidMove\<close>. When \<open>board[row]\<close> is \<open>undefined\<close>, as it is for a row that is not an
  integer, reading \<open>board[row][col]\<close> throws a \<open>TypeError\<close>.
\<close>

definition TicTacToe_isValidMove ::
    "TicTacBoardState TicTacToeLLMGameState \<Rightarrow> MovePosition \<Rightarrow> js_error + bool" where
  "TicTacToe_isValidMove gameState moveData =
     (if row moveData < 0 \<or> row moveData > 2 \<or> col moveData < 0 \<or> col moveData > 2
      then Inr False
      else
        (case js_at (board gameState) (row moveData) of
           None \<Rightarrow> Inl TypeError
         | Some cells \<Rightarrow>
             Inr (js_at cells (col moveData) = Some '''' \<or> js_at cells (col moveData) = Some '' '')))"

text \<open>The test \<open>a && a === b && b === c\<close> of a line of three cells.\<close>

definition threeEqual :: "string option \<Rightarrow> string option \<Rightarrow> string option \<Rightarrow> bool" where
  "threeEqual a b c = (truthy a \<and> a = b \<and> b = c)"

text \<open>\<open>for (const row of board)\<close>: the first row that is a line ends the scan.\<close>

fun checkRows :: "TicTacBoardState \<Rightarrow> GameEnd option" where
  "checkRows [] = None"
| "checkRows (r # rest) =
     (if threeEqual (js_nth r 0) (js_nth r 1) (js_nth r 2)
      then Some \<lparr>isEnded = True, winner = js_nth r 0\<rparr>
      else checkRows rest)"

text \<open>\<open>for (let col = 0; col < 3; col++)\<close>.\<close>

function checkColumns :: "TicTacBoardState \<Rightarrow> int \<Rightarrow> GameEnd option" where
  "checkColumns b c =
     (if c < 3 then
        (if threeEqual (cell b 0 c) (cell b 1 c) (cell b 2 c)
         then Some \<lparr>isEnded = True, winner = cell b 0 c\<rparr>
         else checkColumns b (c + 1))
      else None)"
  by pat_completeness auto
termination
  by (relation "measure (\<lambda>(b, c). nat (3 - c))") auto

definition isFull :: "TicTacBoardState \<Rightarrow> bool" where
  "isFull b = list_all (\<lambda>r. list_all (\<lambda>x. x \<noteq> '''' \<and> x \<noteq> '' '') r) b"

definition TicTacToe_checkGameEnd :: "TicTacBoardState TicTacToeLLMGameState \<Rightarrow> GameEnd" where
  "TicTacToe_checkGameEnd gameState =
     (let b = board gameState in
      case checkRows b of Some e \<Rightarrow> e
      | None \<Rightarrow>
     (case checkColumns b 0 of Some e \<Rightarrow> e
      | None \<Rightarrow>
      if threeEqual (cell b 0 0) (cell b 1 1) (cell b 2 2)
        then \<lparr>isEnded = True, winner = cell b 0 0\<rparr>
      else if threeEqual (cell b 0 2) (cell b 1 1) (cell b 2 0)
        then \<lparr>isEnded = True, winner = cell b 0 2\<rparr>
      else if isFull b then \<lparr>isEnded = True, winner = Some ''draw''\<rparr>
      else \<lparr>isEnded = False, winner = None\<rparr>))"

text \<open>
  The eight lines of a board in the order of the scan: the rows from the top, the
  columns from the left, the diagonal from the top left, the diagonal from the top right.
\<close>

definition board_lines :: "TicTacBoardState \<Rightarrow> (string option \<times> string option \<times> string option) list" where
  "board_lines b =
     map (\<lambda>r. (cell b r 0, cell b r 1, cell b r 2)) [0, 1, 2] @
     map (\<lambda>c. (cell b 0 c, cell b 1 c, cell b 2 c)) [0, 1, 2] @
     [(cell b 0 0, cell b 1 1, cell b 2 2), (cell b 0 2, cell b 1 1, cell b 2 0)]"

text \<open>A completed line holds three equal symbols that are not the empty string.\<close>

definition line_completed :: "string option \<times> string option \<times> string option \<Rightarrow> bool" where
  "line_completed l = (case l of (a, b, c) \<Rightarrow> a \<noteq> None \<and> a \<noteq> Some '''' \<and> a = b \<and> b = c)"

definition occupant :: "string option \<times> string option \<times> string option \<Rightarrow> string option" where
  "occupant l = (case l of (a, b, c) \<Rightarrow> a)"

text \<open>A board is fully occupied when no cell is free: a free cell holds \<open>''\<close> or \<open>' '\<close>.\<close>

definition fully_occupied :: "TicTacBoardState \<Rightarrow> bool" where
  "fully_occupied b = (\<forall>r \<in> {0, 1, 2}. \<forall>c \<in> {0, 1, 2}.
      cell b r c \<noteq> Some '''' \<and> cell b r c \<noteq> Some '' '')"

section \<open>Numbers in template strings\<close>

text \<open>
  The decimal text of an integer. A template string \<open>`${n}`\<close> renders an integer that is
  less than \<open>2 ^ 53\<close> in absolute value by its digits.
\<close>

definition digit_char :: "nat \<Rightarrow> char" where
  "digit_char d = ''0123456789'' ! d"

function show_nat :: "nat \<Rightarrow> string" where
  "show_nat n = (if n < 10 then [digit_char n] else show_nat (n div 10) @ [digit_char (n mod 10)])"
  by pat_completeness auto
termination
  by (relation "measure id") auto

definition show_int :: "int \<Rightarrow> string" where
  "show_int i = (if i < 0 then ''-'' @ show_nat (nat (- i)) else show_nat (nat i))"

text \<open>
  \<open>`${n}`\<close> for a number \<open>n\<close>. The text of a number that is not an integer, or that is
  \<open>2 ^ 53\<close> or more in absolute value (from \<open>10 ^ 21\<close> on it has an exponent), is what
  the conversion of a floating-point number to text gives; it is the parameter \<open>num\<close>.
\<close>

definition show_number :: "(number \<Rightarrow> string) \<Rightarrow> number \<Rightarrow> string" where
  "show_number num n =
     (if isInteger n \<and> \<bar>n\<bar> < 2 ^ 53 then show_int \<lfloor>n\<rfloor> else num n)"

section \<open>Connect Four (types/connect4.ts and the Connect4LLM class)\<close>

datatype Connect4Player = red | yellow

text \<open>\<open>Connect4Cell\<close> is \<open>'' | 'red' | 'yellow'\<close>.\<close>

datatype Connect4Cell = EmptyCell | Piece Connect4Player

type_synonym Connect4Board = "Connect4Cell list list"

text \<open>
  \<open>Connect4MoveData\<close>. The column is an integer here. For a column that is not an
  integer \<open>board[0][column]\<close> is \<open>undefined\<close>, whatever the board: \<open>isValidMove\<close> rejects
  the move and throws nothing.
\<close>

record Connect4MoveData =
  column :: int
  player :: Connect4Player

text \<open>
  \<open>Connect4GameState\<close>; the field \<open>players\<close> (names and kinds of the two players) is
  read by no function below and is left out.
\<close>

record 'b Connect4GameState = "('b, Connect4Player) BoardGameState" +
  lastColumn :: "int option"

text \<open>The board has six rows of seven columns; row 0 is the top row.\<close>

definition wf_connect4 :: "Connect4Board \<Rightarrow> bool" where
  "wf_connect4 b = (length b = 6 \<and> list_all (\<lambda>r. length r = 7) b)"

definition Connect4_isValidMove ::
    "(Connect4Board, 'z) Connect4GameState_scheme \<Rightarrow> Connect4MoveData \<Rightarrow> bool" where
  "Connect4_isValidMove gameState moveData =
     (if column moveData < 0 \<or> column moveData > 6 then False
      else cell (board gameState) 0 (column moveData) = Some EmptyCell)"

text \<open>\<open>for (let row = 5; row >= 0; row--)\<close>, returning \<open>-1\<close> when the column is full.\<close>

function lowestEmptyFrom :: "Connect4Board \<Rightarrow> int \<Rightarrow> int \<Rightarrow> int" where
  "lowestEmptyFrom b c r =
     (if r \<ge> 0 then
        (if cell b r c = Some EmptyCell then r else lowestEmptyFrom b c (r - 1))
      else - 1)"
  by pat_completeness auto
termination
  by (relation "measure (\<lambda>(b, c, r). nat (r + 1))") auto

definition findLowestEmptyRow :: "Connect4Board \<Rightarrow> int \<Rightarrow> int" where
  "findLowestEmptyRow b c = lowestEmptyFrom b c 5"

text \<open>
  The new board of \<open>applyMove\<close>: \<open>board.map((boardRow, rowIndex) => boardRow.map((cell,
  colIndex) => rowIndex === row && colIndex === column ? player : cell))\<close>.
\<close>

definition withPiece :: "Connect4Board \<Rightarrow> int \<Rightarrow> int \<Rightarrow> Connect4Player \<Rightarrow> Connect4Board" where
  "withPiece b r c p =
     map (\<lambda>(rowIndex, boardRow).
            map (\<lambda>(colIndex, x). if int rowIndex = r \<and> int colIndex = c then Piece p else x)
              (enumerate 0 boardRow))
       (enumerate 0 b)"

definition Connect4_applyMove ::
    "Connect4Board Connect4GameState \<Rightarrow> Connect4MoveData \<Rightarrow> js_error + Connect4Board Connect4GameState" where
  "Connect4_applyMove gameState moveData =
     (let r = findLowestEmptyRow (board gameState) (column moveData) in
      if r = - 1 then Inl (Error ''Column is full'')
      else Inr (gameState\<lparr>
        board := withPiece (board gameState) r (column moveData) (player moveData),
        currentPlayer := (if player moveData = red then yellow else red),
        lastColumn := Some (column moveData)\<rparr>))"

definition Connect4_getInvalidMoveMessage ::
    "(number \<Rightarrow> string) \<Rightarrow> (Connect4Board, 'z) Connect4GameState_scheme \<Rightarrow> Connect4MoveData \<Rightarrow>
     string" where
  "Connect4_getInvalidMoveMessage num gameState moveData =
     (if column moveData < 0 \<or> column moveData > 6
      then ''Column '' @ show_number num (of_int (column moveData)) @
           '' is out of bounds. Use columns 0-6 only.''
      else ''Column '' @ show_number num (of_int (column moveData)) @
           '' is full. Choose an OPEN column.'')"

text \<open>
  In a position of the game no piece hangs above an empty cell: a piece is only ever
  put into the lowest empty cell of its column.
\<close>

definition gravity :: "Connect4Board \<Rightarrow> bool" where
  "gravity b = (\<forall>c \<in> {0..6}. \<forall>r \<in> {0..4}.
      cell b r c \<noteq> Some EmptyCell \<longrightarrow> cell b (r + 1) c \<noteq> Some EmptyCell)"

definition emptyBoard :: Connect4Board where
  "emptyBoard = replicate 6 (replicate 7 EmptyCell)"

section \<open>The games on a store of arrays\<close>

text \<open>
  JavaScript arrays are objects: a board is an array of references to row arrays, and a
  function that writes into a row changes it for everybody who holds the row. The store
  makes this explicit. An address is a position in the store; allocation appends, so no
  address is ever reused.
\<close>

type_synonym addr = nat

datatype 'c js_array = Cells "'c list" | Rows "addr list"

type_synonym 'c store = "'c js_array list"

definition lookup :: "'c store \<Rightarrow> addr \<Rightarrow> 'c js_array option" where
  "lookup h p = (if p < length h then Some (h ! p) else None)"

text \<open>The board an address stands for: its rows, read through the store.\<close>

definition rowAt :: "'c store \<Rightarrow> addr \<Rightarrow> 'c list option" where
  "rowAt h q = (case lookup h q of Some (Cells xs) \<Rightarrow> Some xs | _ \<Rightarrow> None)"

definition boardAt :: "'c store \<Rightarrow> addr \<Rightarrow> 'c list list option" where
  "boardAt h p = (case lookup h p of Some (Rows qs) \<Rightarrow> those (map (rowAt h) qs) | _ \<Rightarrow> None)"

text \<open>
  A fresh two-level array with the given contents, as \<open>board.map((row) => row.map(...))\<close>
  and \<open>board.map((row) => [...row])\<close> build it: one new array for each row and one new
  array of rows.
\<close>

definition allocBoard :: "'c store \<Rightarrow> 'c list list \<Rightarrow> 'c store \<times> addr" where
  "allocBoard h b =
     (h @ map Cells b @ [Rows [length h ..< length h + length b]], length h + length b)"

text \<open>
  The outcome of a function that can throw. A write outside a row lengthens the array
  (or adds a property to it); the result is no board any more, and the model stops there.
\<close>

datatype 'a js_result = Returns 'a | Throws js_error | NotModelled

text \<open>
  The assignment \<open>a[r][c] = v\<close>, for an array of rows at address \<open>a\<close> and numbers \<open>r\<close>
  and \<open>c\<close>. When \<open>a[r]\<close> is \<open>undefined\<close> it throws a \<open>TypeError\<close>.
\<close>

definition assignCell :: "'c store \<Rightarrow> addr \<Rightarrow> number \<Rightarrow> number \<Rightarrow> 'c \<Rightarrow> 'c store js_result" where
  "assignCell h a r c v =
     (case lookup h a of
        Some (Rows qs) \<Rightarrow>
          (case js_at qs r of
             None \<Rightarrow> Throws TypeError
           | Some q \<Rightarrow>
              (case lookup h q of
                 Some (Cells xs) \<Rightarrow>
                   if isInteger c \<and> 0 \<le> c \<and> \<lfloor>c\<rfloor> < int (length xs)
                   then Returns (h[q := Cells (xs[nat \<lfloor>c\<rfloor> := v])])
                   else NotModelled
               | _ \<Rightarrow> NotModelled))
      | _ \<Rightarrow> NotModelled)"

text \<open>The same state with another representation of the board.\<close>

definition withBoard :: "('a, 'p, 'z) BoardGameState_scheme \<Rightarrow> 'b \<Rightarrow> ('b, 'p, 'z) BoardGameState_scheme" where
  "withBoard s b = \<lparr>state_id = state_id s, gameType = gameType s, status = status s,
     mode = mode s, game_winner = game_winner s, gameOver = gameOver s,
     createdAt = createdAt s, lastMove = lastMove s, board = b,
     currentPlayer = currentPlayer s, \<dots> = BoardGameState.more s\<rparr>"

text \<open>
  \<open>TicTacToeLLM.applyMove\<close>: copy the rows, write the symbol of the player to move into
  the copy, and return a new state object that refers to the copy.
\<close>

definition TicTacToe_applyMove ::
    "string store \<Rightarrow> addr TicTacToeLLMGameState \<Rightarrow> MovePosition \<Rightarrow>
     (string store \<times> addr TicTacToeLLMGameState) js_result" where
  "TicTacToe_applyMove h gameState moveData =
     (case boardAt h (board gameState) of
        None \<Rightarrow> Throws TypeError
      | Some b \<Rightarrow>
         (case allocBoard h b of (h1, newBoard) \<Rightarrow>
           (case assignCell h1 newBoard (row moveData) (col moveData)
                   (symbol (currentPlayer gameState)) of
              Returns h2 \<Rightarrow>
                Returns (h2, gameState\<lparr>board := newBoard,
                  currentPlayer := (if currentPlayer gameState = PlayerX then PlayerO else PlayerX)\<rparr>)
            | Throws e \<Rightarrow> Throws e
            | NotModelled \<Rightarrow> NotModelled)))"

text \<open>
  \<open>Connect4LLM.applyMove\<close> on the store: it reads the board, and the two nested
  \<open>map\<close> calls build the new board in fresh arrays.
\<close>

definition Connect4_applyMove_store ::
    "Connect4Cell store \<Rightarrow> addr Connect4GameState \<Rightarrow> Connect4MoveData \<Rightarrow>
     (Connect4Cell store \<times> addr Connect4GameState) js_result" where
  "Connect4_applyMove_store h gameState moveData =
     (case boardAt h (board gameState) of
        None \<Rightarrow> Throws TypeError
      | Some b \<Rightarrow>
         (let r = findLowestEmptyRow b (column moveData) in
          if r = - 1 then Throws (Error ''Column is full'')
          else
            (case allocBoard h (withPiece b r (column moveData) (player moveData)) of
               (h1, newBoard) \<Rightarrow>
                 Returns (h1, gameState\<lparr>board := newBoard,
                   currentPlayer := (if player moveData = red then yellow else red),
                   lastColumn := Some (column moveData)\<rparr>))))"

text \<open>
  The board \<open>b'\<close> differs from the board \<open>b\<close> in exactly one cell: it is \<open>b\<close> with the
  content of one cell replaced by a different content.
\<close>

definition one_cell_changed :: "'c list list \<Rightarrow> 'c list list \<Rightarrow> bool" where
  "one_cell_changed b b' =
     (\<exists>r < length b. \<exists>c < length (b ! r).
        b' = b[r := (b ! r)[c := b' ! r ! c]] \<and> b' ! r ! c \<noteq> b ! r ! c)"

section \<open>Provider configuration (types/settings.ts)\<close>

text \<open>
  \<open>ProviderConfig\<close>. An optional field that is absent is \<open>None\<close>. The field
  \<open>provider\<close> has the type \<open>AIProvider\<close> of six names; it is a string here, as the
  registry of providers looks it up.
\<close>

record ProviderConfig =
  provider :: string
  model :: string
  url :: "string option"
  apiKey :: "string option"
  azureOpenAIApiInstanceName :: "string option"
  azureOpenAIApiDeploymentName :: "string option"
  azureOpenAIApiVersion :: "string option"
  region :: "string option"
  accessKeyId :: "string option"
  secretAccessKey :: "string option"
  crossRegion :: "bool option"

record ValidationResult =
  valid :: bool
  errors :: "string list"
  warnings :: "string list option"

section \<open>What the providers see of the outside\<close>

text \<open>
  What a rejected promise or a \<open>catch\<close> clause receives: an \<open>Error\<close> object with its
  message, or some other value.
\<close>

datatype rejection = ErrorObject string | OtherValue

text \<open>
  The response of \<open>fetch\<close>; \<open>json\<close> stands for \<open>await response.json()\<close> and gives the
  names of \<open>data.models || []\<close>. The status code is an integer of at most three digits.
\<close>

record TagsResponse =
  ok :: bool
  httpStatus :: int
  statusText :: string
  json :: "rejection + string list"

text \<open>
  The outside world of the providers: whether \<open>new URL(s)\<close> accepts a string, what
  \<open>fetch\<close> gives for an address, and whether the vendor's client, built from a
  configuration, answers the test message (\<open>None\<close>) or fails.
\<close>

record World =
  urlParses :: "string \<Rightarrow> bool"
  fetch :: "string \<Rightarrow> rejection + TagsResponse"
  invokeTest :: "ProviderConfig \<Rightarrow> rejection option"

section \<open>BaseProvider (providers/base-provider.ts)\<close>

text \<open>\<open>xs.join(sep)\<close>.\<close>

fun join :: "string \<Rightarrow> string list \<Rightarrow> string" where
  "join sep [] = []"
| "join sep [x] = x"
| "join sep (x # y # ys) = x @ sep @ join sep (y # ys)"

definition js_space :: "char \<Rightarrow> bool" where
  "js_space c = ((of_char c :: nat) \<in> {9, 10, 11, 12, 13, 32, 160})"

definition js_trim :: "string \<Rightarrow> string" where
  "js_trim s = rev (dropWhile js_space (rev (dropWhile js_space s)))"

definition validateRequired :: "string option \<Rightarrow> string \<Rightarrow> string option" where
  "validateRequired v fieldName =
     (if \<not> truthy v \<or> js_trim (case v of Some s \<Rightarrow> s | None \<Rightarrow> []) = []
      then Some (fieldName @ '' is required'') else None)"

definition validateUrl :: "World \<Rightarrow> string option \<Rightarrow> string \<Rightarrow> string option" where
  "validateUrl w u fieldName =
     (case validateRequired u fieldName of
        Some requiredError \<Rightarrow> Some requiredError
      | None \<Rightarrow>
         (case u of
            Some s \<Rightarrow> if urlParses w s then None else Some (''Invalid '' @ fieldName @ '' format'')
          | None \<Rightarrow> Some (''Invalid '' @ fieldName @ '' format'')))"

definition createSuccess :: "string list \<Rightarrow> ValidationResult" where
  "createSuccess ws = \<lparr>valid = True, errors = [], warnings = Some ws\<rparr>"

definition createError :: "string \<Rightarrow> ValidationResult" where
  "createError e = \<lparr>valid = False, errors = [e], warnings = None\<rparr>"

text \<open>\<open>error instanceof Error ? error.message : dflt\<close>.\<close>

definition messageOr :: "rejection \<Rightarrow> string \<Rightarrow> string" where
  "messageOr r dflt = (case r of ErrorObject m \<Rightarrow> m | OtherValue \<Rightarrow> dflt)"

text \<open>\<open>makeTestRequest\<close>, given what the test function does: it returns or it fails.\<close>

definition makeTestRequest :: "rejection + ValidationResult \<Rightarrow> ValidationResult" where
  "makeTestRequest testFn =
     (case testFn of
        Inr r \<Rightarrow> r
      | Inl e \<Rightarrow> createError (messageOr e ''Connection test failed''))"

text \<open>The optional error of a check, pushed on the list of errors.\<close>

definition pushed :: "string option \<Rightarrow> string list" where
  "pushed e = (case e of Some m \<Rightarrow> [m] | None \<Rightarrow> [])"

text \<open>\<open>errors.length > 0 ? { valid: false, errors } : this.createSuccess(warnings)\<close>.\<close>

definition validationOf :: "string list \<Rightarrow> string list \<Rightarrow> ValidationResult" where
  "validationOf es ws =
     (if length es > 0 then \<lparr>valid = False, errors = es, warnings = None\<rparr> else createSuccess ws)"

text \<open>
  The test of a client: \<open>createLLM(config)\<close>, which throws the given message when a field
  it needs is missing, then \<open>llm.invoke(testMessage)\<close>, then \<open>createSuccess(warnings)\<close>.
\<close>

definition clientTest :: "World \<Rightarrow> ProviderConfig \<Rightarrow> bool \<Rightarrow> string \<Rightarrow> string list \<Rightarrow>
    rejection + ValidationResult" where
  "clientTest w config missing msg ws =
     (if missing then Inl (ErrorObject msg)
      else case invokeTest w config of
             Some e \<Rightarrow> Inl e
           | None \<Rightarrow> Inr (createSuccess ws))"

section \<open>The providers\<close>

subsection \<open>Ollama (providers/ollama-provider.ts)\<close>

definition Ollama_validateConfig :: "World \<Rightarrow> ProviderConfig \<Rightarrow> ValidationResult" where
  "Ollama_validateConfig w config =
     validationOf
       (pushed (validateUrl w (url config) ''Ollama URL'') @
        pushed (validateRequired (Some (model config)) ''Model name''))
       []"

definition Ollama_testFn :: "World \<Rightarrow> ProviderConfig \<Rightarrow> rejection + ValidationResult" where
  \<open>Ollama_testFn w config =
     (case fetch w ((case url config of Some u \<Rightarrow> u | None \<Rightarrow> ''undefined'') @ ''/api/tags'') of
        Inl e \<Rightarrow> Inl e
      | Inr response \<Rightarrow>
          if \<not> ok response
          then Inl (ErrorObject (''Ollama API returned '' @ show_int (httpStatus response) @ '': '' @
                 statusText response))
          else
            (case json response of
               Inl e \<Rightarrow> Inl e
             | Inr models \<Rightarrow>
                 clientTest w config (\<not> truthy (url config)) ''Ollama URL is required''
                   (if list_ex (\<lambda>name. name = model config \<or> name = model config @ '':latest'') models
                    then []
                    else [''Model "'' @ model config @
                          ''" not found on Ollama instance. Available models: '' @
                          join '', '' models])))\<close>

definition Ollama_testConnection :: "World \<Rightarrow> ProviderConfig \<Rightarrow> ValidationResult" where
  "Ollama_testConnection w config =
     (if \<not> truthy (url config) \<or> model config = []
      then createError ''URL and model are required for connection test''
      else makeTestRequest (Ollama_testFn w config))"

subsection \<open>OpenAI (providers/openai-provider.ts)\<close>

definition OpenAI_validateConfig :: "ProviderConfig \<Rightarrow> ValidationResult" where
  \<open>OpenAI_validateConfig config =
     validationOf
       (pushed (validateRequired (apiKey config) ''API key'') @
        pushed (validateRequired (Some (model config)) ''Model name'') @
        (case apiKey config of
           Some k \<Rightarrow> if k \<noteq> [] \<and> \<not> prefix ''sk-'' k
                     then [''OpenAI API key should start with "sk-"''] else []
         | None \<Rightarrow> []))
       []\<close>

definition OpenAI_testConnection :: "World \<Rightarrow> ProviderConfig \<Rightarrow> ValidationResult" where
  "OpenAI_testConnection w config =
     (if \<not> truthy (apiKey config) \<or> model config = []
      then createError ''API key and model are required for connection test''
      else makeTestRequest
             (clientTest w config (\<not> truthy (apiKey config)) ''OpenAI API key is required'' []))"

subsection \<open>Anthropic (providers/anthropic-provider.ts)\<close>

definition Anthropic_validateConfig :: "ProviderConfig \<Rightarrow> ValidationResult" where
  \<open>Anthropic_validateConfig config =
     validationOf
       (pushed (validateRequired (apiKey config) ''API key'') @
        pushed (validateRequired (Some (model config)) ''Model name'') @
        (case apiKey config of
           Some k \<Rightarrow> if k \<noteq> [] \<and> \<not> prefix ''sk-ant-'' k
                     then [''Anthropic API key should start with "sk-ant-"''] else []
         | None \<Rightarrow> []))
       []\<close>

definition Anthropic_testConnection :: "World \<Rightarrow> ProviderConfig \<Rightarrow> ValidationResult" where
  "Anthropic_testConnection w config =
     (if \<not> truthy (apiKey config) \<or> model config = []
      then createError ''API key and model are required for connection test''
      else makeTestRequest
             (clientTest w config (\<not> truthy (apiKey config)) ''Anthropic API key is required'' []))"

subsection \<open>Azure OpenAI (providers/azure-openai-provider.ts)\<close>

definition AzureOpenAI_validateConfig :: "ProviderConfig \<Rightarrow> ValidationResult" where
  "AzureOpenAI_validateConfig config =
     validationOf
       (pushed (validateRequired (apiKey config) ''API key'') @
        pushed (validateRequired (azureOpenAIApiInstanceName config) ''Instance name'') @
        pushed (validateRequired (azureOpenAIApiDeploymentName config) ''Deployment name'') @
        pushed (validateRequired (Some (model config)) ''Model name''))
       []"

definition AzureOpenAI_testConnection :: "World \<Rightarrow> ProviderConfig \<Rightarrow> ValidationResult" where
  "AzureOpenAI_testConnection w config =
     (if \<not> truthy (apiKey config) \<or> \<not> truthy (azureOpenAIApiInstanceName config) \<or>
         \<not> truthy (azureOpenAIApiDeploymentName config)
      then createError
             ''API key, instance name, and deployment name are required for connection test''
      else makeTestRequest
             (clientTest w config
                (\<not> truthy (apiKey config) \<or> \<not> truthy (azureOpenAIApiInstanceName config) \<or>
                 \<not> truthy (azureOpenAIApiDeploymentName config))
                ''Azure OpenAI API key, instance name, and deployment name are required'' []))"

subsection \<open>AWS Bedrock (providers/bedrock-provider.ts)\<close>

definition formatCrossRegionModel :: "string \<Rightarrow> string \<Rightarrow> string" where
  "formatCrossRegionModel modelName rgn =
     (let regionPrefix =
        (if prefix ''us-'' rgn then ''us.''
         else if prefix ''eu-'' rgn then ''eu.''
         else if prefix ''ap-'' rgn then ''ap.''
         else if prefix ''ca-'' rgn then ''ca.''
         else if prefix ''sa-'' rgn then ''sa.''
         else takeWhile (\<lambda>c. c \<noteq> CHR ''-'') rgn @ ''.'')
      in if CHR ''.'' \<notin> set modelName then regionPrefix @ modelName else modelName)"

text \<open>The regular expression \<open>/^AKIA[0-9A-Z]{16}$/\<close>.\<close>

definition matchesAccessKeyId :: "string \<Rightarrow> bool" where
  "matchesAccessKeyId s =
     (length s = 20 \<and> take 4 s = ''AKIA'' \<and>
      list_all (\<lambda>c. (48 \<le> (of_char c :: nat) \<and> (of_char c :: nat) \<le> 57) \<or>
                     (65 \<le> (of_char c :: nat) \<and> (of_char c :: nat) \<le> 90)) (drop 4 s))"

definition Bedrock_validateConfig :: "ProviderConfig \<Rightarrow> ValidationResult" where
  \<open>Bedrock_validateConfig config =
     validationOf
       (pushed (validateRequired (region config) ''AWS region'') @
        pushed (validateRequired (accessKeyId config) ''Access Key ID'') @
        pushed (validateRequired (secretAccessKey config) ''Secret Access Key'') @
        pushed (validateRequired (Some (model config)) ''Model name'') @
        (case accessKeyId config of
           Some k \<Rightarrow> if k \<noteq> [] \<and> \<not> matchesAccessKeyId k
                     then [''AWS Access Key ID should start with "AKIA" followed by 16 alphanumeric characters'']
                     else []
         | None \<Rightarrow> []))
       (case region config of
          Some rgn \<Rightarrow>
            if crossRegion config = Some True \<and> rgn \<noteq> [] \<and> model config \<noteq> [] \<and>
               formatCrossRegionModel (model config) rgn \<noteq> model config
            then [''Cross-region enabled: Model will be accessed as "'' @
                  formatCrossRegionModel (model config) rgn @ ''"'']
            else []
        | None \<Rightarrow> [])\<close>

definition Bedrock_testConnection :: "World \<Rightarrow> ProviderConfig \<Rightarrow> ValidationResult" where
  "Bedrock_testConnection w config =
     (if \<not> truthy (region config) \<or> \<not> truthy (accessKeyId config) \<or>
         \<not> truthy (secretAccessKey config) \<or> model config = []
      then createError
             ''Region, access key ID, secret access key, and model are required for connection test''
      else makeTestRequest
             (clientTest w config
                (\<not> truthy (region config) \<or> \<not> truthy (accessKeyId config) \<or>
                 \<not> truthy (secretAccessKey config))
                ''AWS region, access key ID, and secret access key are required for Bedrock'' []))"

section \<open>The registry of providers (providers/provider-factory.ts)\<close>

text \<open>
  A provider as the factory uses it. The two methods of a provider whose source is not
  at hand may throw, or reject; those of the five providers above return.
\<close>

record Provider =
  validateConfig :: "ProviderConfig \<Rightarrow> rejection + ValidationResult"
  testConnection :: "ProviderConfig \<Rightarrow> rejection + ValidationResult"

text \<open>
  The six registered providers. The class \<open>GoogleProvider\<close> (google-provider.ts) is
  registered under \<open>google\<close>; it is a parameter.
\<close>

definition providers :: "World \<Rightarrow> Provider \<Rightarrow> string \<Rightarrow> Provider option" where
  "providers w google =
     [''ollama'' \<mapsto> \<lparr>validateConfig = (\<lambda>c. Inr (Ollama_validateConfig w c)),
                     testConnection = (\<lambda>c. Inr (Ollama_testConnection w c))\<rparr>,
      ''openai'' \<mapsto> \<lparr>validateConfig = (\<lambda>c. Inr (OpenAI_validateConfig c)),
                     testConnection = (\<lambda>c. Inr (OpenAI_testConnection w c))\<rparr>,
      ''anthropic'' \<mapsto> \<lparr>validateConfig = (\<lambda>c. Inr (Anthropic_validateConfig c)),
                        testConnection = (\<lambda>c. Inr (Anthropic_testConnection w c))\<rparr>,
      ''google'' \<mapsto> google,
      ''azure-openai'' \<mapsto> \<lparr>validateConfig = (\<lambda>c. Inr (AzureOpenAI_validateConfig c)),
                           testConnection = (\<lambda>c. Inr (AzureOpenAI_testConnection w c))\<rparr>,
      ''bedrock'' \<mapsto> \<lparr>validateConfig = (\<lambda>c. Inr (Bedrock_validateConfig c)),
                      testConnection = (\<lambda>c. Inr (Bedrock_testConnection w c))\<rparr>]"

definition getProvider :: "World \<Rightarrow> Provider \<Rightarrow> string \<Rightarrow> rejection + Provider" where
  "getProvider w google name =
     (case providers w google name of
        None \<Rightarrow> Inl (ErrorObject (''Unsupported AI provider: '' @ name))
      | Some p \<Rightarrow> Inr p)"

section \<open>LLMFactory (llm-factory.ts)\<close>

definition LLMFactory_validateAndTest :: "World \<Rightarrow> Provider \<Rightarrow> ProviderConfig \<Rightarrow> ValidationResult" where
  "LLMFactory_validateAndTest w google config =
     (let caught = (\<lambda>e. \<lparr>valid = False, errors = [messageOr e ''Connection test failed''],
                          warnings = None\<rparr>) in
      case getProvider w google (provider config) of
        Inl e \<Rightarrow> caught e
      | Inr p \<Rightarrow>
         (case validateConfig p config of
            Inl e \<Rightarrow> caught e
          | Inr validationResult \<Rightarrow>
              if \<not> valid validationResult then validationResult
              else
                (case testConnection p config of
                   Inl e \<Rightarrow> caught e
                 | Inr testResult \<Rightarrow>
                     \<lparr>valid = valid testResult, errors = errors testResult,
                      warnings = Some ((case warnings validationResult of Some ws \<Rightarrow> ws | None \<Rightarrow> []) @
                                       (case warnings testResult of Some ws \<Rightarrow> ws | None \<Rightarrow> []))\<rparr>)))"

definition LLMFactory_validateConfig :: "World \<Rightarrow> Provider \<Rightarrow> ProviderConfig \<Rightarrow> ValidationResult" where
  "LLMFactory_validateConfig w google config =
     (let caught = (\<lambda>e. \<lparr>valid = False, errors = [messageOr e ''Validation failed''],
                          warnings = None\<rparr>) in
      case getProvider w google (provider config) of
        Inl e \<Rightarrow> caught e
      | Inr p \<Rightarrow>
         (case validateConfig p config of
            Inl e \<Rightarrow> caught e
          | Inr r \<Rightarrow> r))"

text \<open>
  The invariant of a \<open>ValidationResult\<close>: \<open>valid = false\<close> implies that \<open>errors\<close> is not
  empty.
\<close>

definition never_partially_valid :: "ValidationResult \<Rightarrow> bool" where
  "never_partially_valid r = (\<not> valid r \<longrightarrow> errors r \<noteq> [])"

text \<open>What is assumed of the provider that is a parameter: its results keep the invariant.\<close>

definition keeps_invariant :: "Provider \<Rightarrow> bool" where
  "keeps_invariant p =
     (\<forall>c r. (validateConfig p c = Inr r \<longrightarrow> never_partially_valid r) \<and>
            (testConnection p c = Inr r \<longrightarrow> never_partially_valid r))"

section \<open>JSON.stringify, as far as the cache key needs it\<close>

text \<open>
  \<open>JSON.stringify\<close> of a string puts it between double quotes (code 34) and escapes the
  double quote, the backslash (code 92) and the control characters.
\<close>

definition hex_digit :: "nat \<Rightarrow> char" where
  "hex_digit d = ''0123456789abcdef'' ! d"

definition quoteChar :: "char \<Rightarrow> string" where
  "quoteChar c =
     (let n = (of_char c :: nat) in
      if n = 8 then [CHR 0x5C, CHR ''b'']
      else if n = 9 then [CHR 0x5C, CHR ''t'']
      else if n = 10 then [CHR 0x5C, CHR ''n'']
      else if n = 12 then [CHR 0x5C, CHR ''f'']
      else if n = 13 then [CHR 0x5C, CHR ''r'']
      else if n = 34 then [CHR 0x5C, CHR 0x22]
      else if n = 92 then [CHR 0x5C, CHR 0x5C]
      else if n < 32
        then [CHR 0x5C, CHR ''u'', CHR ''0'', CHR ''0'', hex_digit (n div 16), hex_digit (n mod 16)]
      else [c])"

definition quoteJSONString :: "string \<Rightarrow> string" where
  "quoteJSONString s = [CHR 0x22] @ concat (map quoteChar s) @ [CHR 0x22]"

text \<open>
  The members of the object are strings and one number. The text of a number
  (\<open>Number::toString\<close>, or \<open>null\<close>) is a parameter \<open>num\<close>.
\<close>

datatype 'n json = JString string | JNumber 'n

definition stringifyValue :: "('n \<Rightarrow> string) \<Rightarrow> 'n json \<Rightarrow> string" where
  "stringifyValue num v = (case v of JString s \<Rightarrow> quoteJSONString s | JNumber n \<Rightarrow> num n)"

text \<open>
  \<open>JSON.stringify\<close> of an object, given its members in order: a member whose value is
  \<open>undefined\<close> is left out.
\<close>

definition stringifyObject :: "('n \<Rightarrow> string) \<Rightarrow> (string \<times> 'n json option) list \<Rightarrow> string" where
  "stringifyObject num members =
     ''{'' @
     join '','' (List.map_filter
        (\<lambda>(k, v). map_option (\<lambda>x. quoteJSONString k @ '':'' @ stringifyValue num x) v) members) @
     ''}''"

text \<open>\<open>LLMFactory.createCacheKey\<close>.\<close>

definition createCacheKey :: "('n \<Rightarrow> string) \<Rightarrow> ProviderConfig \<Rightarrow> 'n \<Rightarrow> string" where
  "createCacheKey num config temperature =
     stringifyObject num
       [(''provider'', Some (JString (provider config))),
        (''model'', Some (JString (model config))),
        (''temperature'', Some (JNumber temperature)),
        (''url'', map_option JString (url config)),
        (''apiKey'', Some (JString (if truthy (apiKey config) then ''present'' else ''missing''))),
        (''azureInstance'', map_option JString (azureOpenAIApiInstanceName config)),
        (''azureDeployment'', map_option JString (azureOpenAIApiDeploymentName config)),
        (''azureVersion'', map_option JString (azureOpenAIApiVersion config)),
        (''region'', map_option JString (region config)),
        (''accessKeyId'', Some (JString (if truthy (accessKeyId config) then ''present'' else ''missing'')))]"

text \<open>
  Two configurations are identical except in the values of the secret fields \<open>apiKey\<close>
  and \<open>secretAccessKey\<close>.
\<close>

definition same_except_secrets :: "ProviderConfig \<Rightarrow> ProviderConfig \<Rightarrow> bool" where
  "same_except_secrets c1 c2 =
     (c1\<lparr>apiKey := None, secretAccessKey := None\<rparr> = c2\<lparr>apiKey := None, secretAccessKey := None\<rparr>)"

text \<open>
  A configuration with every secret replaced by a mark of its presence: a key that is
  there becomes the one-character string \<open>*\<close>, and the secret access key is dropped.
\<close>

definition secretsAsFlags :: "ProviderConfig \<Rightarrow> ProviderConfig" where
  "secretsAsFlags c = c\<lparr>
     apiKey := (if truthy (apiKey c) then Some ''*'' else None),
     accessKeyId := (if truthy (accessKeyId c) then Some ''*'' else None),
     secretAccessKey := None\<rparr>"

text \<open>Reading back the first character of a quoted string; it is used in proofs only.\<close>

definition hex_value :: "char \<Rightarrow> nat" where
  "hex_value h = (let n = (of_char h :: nat) in if n < 58 then n - 48 else n - 87)"

fun unquoteHead :: "string \<Rightarrow> (char \<times> string) option" where
  "unquoteHead [] = None"
| "unquoteHead (x # xs) =
     (if x \<noteq> CHR 0x5C then Some (x, xs)
      else case xs of
        [] \<Rightarrow> None
      | e # r \<Rightarrow>
          if e = CHR ''b'' then Some (CHR 0x08, r)
          else if e = CHR ''t'' then Some (CHR 0x09, r)
          else if e = CHR ''n'' then Some (CHR 0x0A, r)
          else if e = CHR ''f'' then Some (CHR 0x0C, r)
          else if e = CHR ''r'' then Some (CHR 0x0D, r)
          else if e = CHR ''u'' then
            (case r of
               z1 # z2 # h1 # h2 # r' \<Rightarrow> Some (char_of (16 * hex_value h1 + hex_value h2), r')
             | _ \<Rightarrow> None)
          else Some (e, r))"

section \<open>The message for an illegal move of tic-tac-toe\<close>

text \<open>
  \<open>getInvalidMoveMessage\<close>. Like \<open>isValidMove\<close> it reads \<open>board[row][col]\<close> when the
  position is within the bounds.
\<close>

definition TicTacToe_getInvalidMoveMessage ::
    "(number \<Rightarrow> string) \<Rightarrow> TicTacBoardState TicTacToeLLMGameState \<Rightarrow> MovePosition \<Rightarrow>
     js_error + string" where
  "TicTacToe_getInvalidMoveMessage num gameState moveData =
     (if row moveData < 0 \<or> row moveData > 2 \<or> col moveData < 0 \<or> col moveData > 2
      then Inr (''Position ('' @ show_number num (row moveData) @ '','' @
                show_number num (col moveData) @ '') is out of bounds. Use coordinates 0-2 only.'')
      else
        (case js_at (board gameState) (row moveData) of
           None \<Rightarrow> Inl TypeError
         | Some cells \<Rightarrow>
             Inr (''Position ('' @ show_number num (row moveData) @ '','' @
                  show_number num (col moveData) @ '') is already occupied by '' @
                  (case js_at cells (col moveData) of Some x \<Rightarrow> x | None \<Rightarrow> ''undefined''))))"

section \<open>The move generator (game-llm-interface.ts)\<close>

datatype ErrorType = invalid_move | invalid_json | connection_failed | config_error

text \<open>
  \<open>GameLLMError\<close>: an \<open>Error\<close> with three optional fields. A field that was never
  assigned is \<open>None\<close>.
\<close>

record GameLLMError =
  message :: string
  llmResponse :: "string option"
  errorType :: "ErrorType option"
  errorGameType :: "string option"

record 'm GameLLMMove =
  data :: 'm
  moveReasoning :: "string option"

record 'm GameLLMResponse =
  move :: "'m GameLLMMove"
  reasoning :: "string option"

text \<open>
  A thrown value, as \<open>generateMove\<close> and its callers read it: as an error with a
  \<open>message\<close> and the optional fields of \<open>GameLLMError\<close>, and with the field
  \<open>error.response\<close> that the \<open>catch\<close> clause reads.
\<close>

record Thrown =
  thrownError :: GameLLMError
  thrownResponse :: "string option"

text \<open>
  An error thrown by the code of a game: it has a message and none of the other fields.
  The message of a \<open>TypeError\<close> is the text the engine gives it.
\<close>

definition thrownBy :: "string \<Rightarrow> js_error \<Rightarrow> Thrown" where
  "thrownBy typeErrorMessage e =
     \<lparr>thrownError = \<lparr>message = (case e of TypeError \<Rightarrow> typeErrorMessage | Error text \<Rightarrow> text),
                      llmResponse = None, errorType = None, errorGameType = None\<rparr>,
      thrownResponse = None\<rparr>"

definition methodResult :: "string \<Rightarrow> js_error + 'a \<Rightarrow> Thrown + 'a" where
  "methodResult typeErrorMessage r =
     (case r of Inl e \<Rightarrow> Inl (thrownBy typeErrorMessage e) | Inr v \<Rightarrow> Inr v)"

text \<open>
  A game handler, as \<open>generateMove\<close> uses it: the name of the game, the parser made from
  the move schema (it gives the text of the parse error, or the move and the optional
  reasoning), the legality check, the message for an illegal move, and the prompt, made
  from the state and the feedback section by the template of the game. The three methods
  run inside the \<open>try\<close> block of \<open>generateMove\<close>, and each of them returns or throws.
\<close>

record ('s, 'm) GameLLM =
  llmGameType :: string
  parseResponse :: "string \<Rightarrow> string + ('m \<times> string option)"
  isValidMove :: "'s \<Rightarrow> 'm \<Rightarrow> Thrown + bool"
  getInvalidMoveMessage :: "'s \<Rightarrow> 'm \<Rightarrow> Thrown + string"
  formatPrompt :: "'s \<Rightarrow> string \<Rightarrow> Thrown + string"

text \<open>
  What one call of the backend came to: the backend threw; its response did not parse;
  the response parsed to a move and the legality check or the making of the message
  threw; the move was found illegal and its message made; the move was found legal. The
  list of the attempts made so far is the history of the calls of the backend; the source
  holds it in no variable.
\<close>

datatype 'm Outcome =
    Threw Thrown
  | Unparsable string string
  | CheckThrew string 'm Thrown
  | IllegalMove string 'm
  | LegalMove string 'm

record 'm Attempt =
  prompt :: string
  outcome :: "'m Outcome"

text \<open>
  The services \<open>generateMove\<close> calls: the settings store with the current provider
  configuration, the validation of a configuration, and \<open>LLMFactory.getCurrentLLM\<close>, which
  gives the backend or throws. The backend answers its \<open>n\<close>-th call (counted from 0) to a
  prompt with a text, or throws.
\<close>

record Services =
  world :: World
  googleProvider :: Provider
  providerConfig :: ProviderConfig
  getCurrentLLM :: "ProviderConfig \<Rightarrow> Thrown + (nat \<Rightarrow> string \<Rightarrow> Thrown + string)"

text \<open>\<open>SettingsService.validateProviderConfig\<close> (settings.ts).\<close>

definition validateProviderConfig :: "Services \<Rightarrow> ProviderConfig \<Rightarrow> bool \<times> string list" where
  "validateProviderConfig sv config =
     (let result = LLMFactory_validateConfig (world sv) (googleProvider sv) config
      in (valid result, errors result))"

definition buildFeedbackSection :: "string list \<Rightarrow> string" where
  "buildFeedbackSection previousFailures =
     (if length previousFailures > 0
      then [CHR 0x0A] @ ''PREVIOUS MISTAKES TO AVOID:'' @ [CHR 0x0A] @
           join [CHR 0x0A] (map (\<lambda>failure. ''- '' @ failure) previousFailures) @
           [CHR 0x0A, CHR 0x0A] @ ''Please learn from these mistakes and make a valid move.'' @
           [CHR 0x0A]
      else [])"

text \<open>
  The \<open>catch\<close> clause of \<open>generateMove\<close>: an error that has an \<open>errorType\<close> is thrown on
  as it is, and any other is replaced by an error of the type \<open>connection_failed\<close>.
\<close>

definition caught :: "string \<Rightarrow> Thrown \<Rightarrow> GameLLMError" where
  "caught gameTypeName e =
     (if errorType (thrownError e) \<noteq> None then thrownError e
      else \<lparr>message = gameTypeName @ '' LLM request failed: '' @ message (thrownError e),
            llmResponse = Some (case thrownResponse e of
                                  Some r \<Rightarrow> if r \<noteq> [] then r else ''No response''
                                | None \<Rightarrow> ''No response''),
            errorType = Some connection_failed,
            errorGameType = Some gameTypeName\<rparr>)"

text \<open>
  \<open>BaseGameLLM.generateMove\<close>. The result is the value the promise resolves to
  (\<open>Inr\<close>) or the error it is rejected with (\<open>Inl\<close>), and the attempts made. The check
  of the configuration and \<open>getCurrentLLM\<close> come before the \<open>try\<close> block: what they throw
  is not caught. The promise of the recursive call is returned without \<open>await\<close>, so its
  rejection does not pass through the \<open>catch\<close> clause either.
\<close>

function generateMove ::
    "Services \<Rightarrow> ('s, 'm) GameLLM \<Rightarrow> 's \<Rightarrow> int \<Rightarrow> string list \<Rightarrow> 'm Attempt list \<Rightarrow>
     (GameLLMError + 'm GameLLMResponse) \<times> 'm Attempt list" where
  "generateMove sv game gameState maxRetries previousFailures attempts =
     (let validation = validateProviderConfig sv (providerConfig sv) in
      if \<not> fst validation then
        (Inl \<lparr>message = ''AI configuration is invalid: '' @ join '', '' (snd validation),
              llmResponse = None, errorType = None, errorGameType = None\<rparr>, attempts)
      else
        (case getCurrentLLM sv (providerConfig sv) of
           Inl e \<Rightarrow> (Inl (thrownError e), attempts)
         | Inr llm \<Rightarrow>
            (case formatPrompt game gameState (buildFeedbackSection previousFailures) of
               Inl e \<Rightarrow> (Inl (caught (llmGameType game) e), attempts)
             | Inr formattedPrompt \<Rightarrow>
            (case llm (length attempts) formattedPrompt of
               Inl e \<Rightarrow>
                 (Inl (caught (llmGameType game) e),
                  attempts @ [\<lparr>prompt = formattedPrompt, outcome = Threw e\<rparr>])
             | Inr responseText \<Rightarrow>
                (case parseResponse game responseText of
                   Inl parseError \<Rightarrow>
                     (Inl \<lparr>message = ''Failed to parse LLM response: '' @ parseError,
                           llmResponse = Some responseText,
                           errorType = Some invalid_json,
                           errorGameType = Some (llmGameType game)\<rparr>,
                      attempts @ [\<lparr>prompt = formattedPrompt,
                                   outcome = Unparsable responseText parseError\<rparr>])
                 | Inr parsed \<Rightarrow>
                    (case isValidMove game gameState (fst parsed) of
                       Inl e \<Rightarrow>
                         (Inl (caught (llmGameType game) e),
                          attempts @ [\<lparr>prompt = formattedPrompt,
                                       outcome = CheckThrew responseText (fst parsed) e\<rparr>])
                     | Inr True \<Rightarrow>
                         (Inr \<lparr>move = \<lparr>data = fst parsed, moveReasoning = snd parsed\<rparr>,
                               reasoning = snd parsed\<rparr>,
                          attempts @ [\<lparr>prompt = formattedPrompt,
                                       outcome = LegalMove responseText (fst parsed)\<rparr>])
                     | Inr False \<Rightarrow>
                        (case getInvalidMoveMessage game gameState (fst parsed) of
                           Inl e \<Rightarrow>
                             (Inl (caught (llmGameType game) e),
                              attempts @ [\<lparr>prompt = formattedPrompt,
                                           outcome = CheckThrew responseText (fst parsed) e\<rparr>])
                         | Inr failureMessage \<Rightarrow>
                            (let made = attempts @ [\<lparr>prompt = formattedPrompt,
                                           outcome = IllegalMove responseText (fst parsed)\<rparr>]
                             in if maxRetries > 0 then
                                  generateMove sv game gameState (maxRetries - 1)
                                    (previousFailures @ [failureMessage]) made
                                else
                                  (Inl \<lparr>message = ''Invalid move after 3 attempts: '' @
                                                   failureMessage,
                                        llmResponse = Some responseText,
                                        errorType = Some invalid_move,
                                        errorGameType = Some (llmGameType game)\<rparr>, made)))))))))"
  by pat_completeness auto
termination
  by (relation "measure (\<lambda>(sv, game, gameState, maxRetries, previousFailures, attempts). nat maxRetries)")
    auto

text \<open>
  An attempt that gave a move of the right shape that the legality check found illegal.
\<close>

definition legalityFailure :: "'m Attempt \<Rightarrow> bool" where
  "legalityFailure a = (case outcome a of IllegalMove responseText m \<Rightarrow> True | _ \<Rightarrow> False)"

text \<open>
  The result that the last attempt of a call decides, by what the attempt came to. After
  an illegal move this is the result when no retry is left.
\<close>

definition decides ::
    "('s, 'm) GameLLM \<Rightarrow> 's \<Rightarrow> 'm Outcome \<Rightarrow> GameLLMError + 'm GameLLMResponse \<Rightarrow> bool" where
  "decides game gameState out res =
     (case out of
        Threw e \<Rightarrow> res = Inl (caught (llmGameType game) e)
      | Unparsable responseText parseError \<Rightarrow>
          res = Inl \<lparr>message = ''Failed to parse LLM response: '' @ parseError,
                     llmResponse = Some responseText, errorType = Some invalid_json,
                     errorGameType = Some (llmGameType game)\<rparr>
      | CheckThrew responseText m e \<Rightarrow> res = Inl (caught (llmGameType game) e)
      | IllegalMove responseText m \<Rightarrow>
          (\<exists>failureMessage. getInvalidMoveMessage game gameState m = Inr failureMessage \<and>
             res = Inl \<lparr>message = ''Invalid move after 3 attempts: '' @ failureMessage,
                        llmResponse = Some responseText, errorType = Some invalid_move,
                        errorGameType = Some (llmGameType game)\<rparr>)
      | LegalMove responseText m \<Rightarrow> (\<exists>r. res = Inr r \<and> data (move r) = m))"

text \<open>The raw text of the response of an attempt, when the backend gave one.\<close>

definition rawResponse :: "'m Attempt \<Rightarrow> string option" where
  "rawResponse a =
     (case outcome a of
        Threw e \<Rightarrow> None
      | Unparsable responseText parseError \<Rightarrow> Some responseText
      | CheckThrew responseText m e \<Rightarrow> Some responseText
      | IllegalMove responseText m \<Rightarrow> Some responseText
      | LegalMove responseText m \<Rightarrow> Some responseText)"

section \<open>The game manager (game-manager.ts)\<close>

text \<open>\<open>GameMove\<close> (types/game.ts); the type of \<open>data\<close> depends on the game.\<close>

record 'd GameMove =
  playerId :: string
  timestamp :: nat
  gameMoveData :: 'd

text \<open>The \<open>data\<close> of a \<open>TicTacMove\<close> (types/tictac.ts).\<close>

record TicTacMoveData =
  position :: MovePosition
  moveSymbol :: TicTacPlayer

text \<open>
  \<open>GameHandler\<close>, without the optional \<open>getAIMove\<close>. The promise of \<open>applyMove\<close> is taken to
  resolve, as it does for the registered handlers.
\<close>

record ('s, 'mv) GameHandler =
  validateMove :: "'s \<Rightarrow> 'mv \<Rightarrow> bool"
  applyMove :: "'s \<Rightarrow> 'mv \<Rightarrow> 's"
  checkGameEnd :: "'s \<Rightarrow> GameEnd"

text \<open>
  \<open>GameManager.processMove\<close>, for the map \<open>gameHandlers\<close> of the manager. The assignments
  to \<open>newState\<close> are an update of the state that \<open>applyMove\<close> gave.
\<close>

definition processMove ::
    "(string \<Rightarrow> ('z BaseGameState_scheme, 'mv) GameHandler option) \<Rightarrow>
     'z BaseGameState_scheme \<Rightarrow> 'mv \<Rightarrow> js_error + 'z BaseGameState_scheme" where
  "processMove gameHandlers gameState gameMove =
     (case gameHandlers (gameType gameState) of
        None \<Rightarrow> Inl (Error (''No handler registered for game type: '' @ gameType gameState))
      | Some handler \<Rightarrow>
          if \<not> validateMove handler gameState gameMove then Inl (Error ''Invalid move'')
          else
            (let newState = applyMove handler gameState gameMove;
                 gameEnd = checkGameEnd handler newState
             in Inr (if isEnded gameEnd
                     then newState\<lparr>gameOver := True, status := completed,
                            game_winner := winner gameEnd\<rparr>
                     else newState)))"

text \<open>
  The two handlers that game-manager.ts registers, for \<open>tictactoe\<close> and for \<open>connect4\<close>:
  \<open>validateMove: () => true\<close>, \<open>applyMove: async (gameState) => gameState\<close> and
  \<open>checkGameEnd: () => ({ isEnded: false })\<close>.
\<close>

definition basicHandler :: "('s, 'mv) GameHandler" where
  "basicHandler = \<lparr>validateMove = (\<lambda>gameState gameMove. True),
     applyMove = (\<lambda>gameState gameMove. gameState),
     checkGameEnd = (\<lambda>gameState. \<lparr>isEnded = False, winner = None\<rparr>)\<rparr>"

definition registeredHandlers :: "string \<Rightarrow> ('s, 'mv) GameHandler option" where
  "registeredHandlers = [''tictactoe'' \<mapsto> basicHandler, ''connect4'' \<mapsto> basicHandler]"

section \<open>Example states\<close>

definition tictac_row_board :: TicTacBoardState where
  "tictac_row_board = [[''X'', ''X'', ''X''], [''O'', ''O'', ''''], ['''', '''', '''']]"

definition tictac_row_state :: "TicTacBoardState TicTacToeLLMGameState" where
  "tictac_row_state = \<lparr>state_id = ''g1'', gameType = ''tictactoe'', status = in_progress, mode = vs_ai,
     game_winner = None, gameOver = False, createdAt = 0, lastMove = None,
     board = tictac_row_board, currentPlayer = PlayerO\<rparr>"

definition tictac_draw_board :: TicTacBoardState where
  "tictac_draw_board = [[''X'', ''O'', ''X''], [''X'', ''O'', ''O''], [''O'', ''X'', ''X'']]"

definition tictac_draw_state :: "TicTacBoardState TicTacToeLLMGameState" where
  "tictac_draw_state = \<lparr>state_id = ''g2'', gameType = ''tictactoe'', status = in_progress, mode = vs_ai,
     game_winner = None, gameOver = False, createdAt = 0, lastMove = None,
     board = tictac_draw_board, currentPlayer = PlayerO\<rparr>"

definition connect4_example_board :: Connect4Board where
  "connect4_example_board =
     [[EmptyCell, EmptyCell, EmptyCell, Piece yellow, EmptyCell, EmptyCell, EmptyCell],
      [EmptyCell, EmptyCell, EmptyCell, Piece red, EmptyCell, EmptyCell, EmptyCell],
      [EmptyCell, EmptyCell, EmptyCell, Piece yellow, EmptyCell, EmptyCell, EmptyCell],
      [EmptyCell, EmptyCell, EmptyCell, Piece red, EmptyCell, EmptyCell, EmptyCell],
      [EmptyCell, EmptyCell, EmptyCell, Piece yellow, EmptyCell, EmptyCell, EmptyCell],
      [EmptyCell, EmptyCell, Piece yellow, Piece red, EmptyCell, EmptyCell, EmptyCell]]"

definition connect4_example_state :: "Connect4Board Connect4GameState" where
  "connect4_example_state = \<lparr>state_id = ''connect4-1'', gameType = ''connect4'', status = in_progress,
     mode = vs_ai, game_winner = None, gameOver = False, createdAt = 0, lastMove = None,
     board = connect4_example_board, currentPlayer = red, lastColumn = Some 2\<rparr>"

definition tictac_scenario_board :: TicTacBoardState where
  "tictac_scenario_board = [[''X'', ''X'', ''''], [''O'', ''O'', ''''], ['''', '''', '''']]"

definition tictac_scenario_store :: "string store" where
  "tictac_scenario_store = fst (allocBoard [] tictac_scenario_board)"

definition tictac_scenario_state :: "addr TicTacToeLLMGameState" where
  "tictac_scenario_state = \<lparr>state_id = ''tictactoe-1'', gameType = ''tictactoe'', status = in_progress,
     mode = vs_ai, game_winner = None, gameOver = False, createdAt = 0, lastMove = None,
     board = snd (allocBoard [] tictac_scenario_board), currentPlayer = PlayerX\<rparr>"

definition connect4_example_store :: "Connect4Cell store" where
  "connect4_example_store = fst (allocBoard [] connect4_example_board)"

definition connect4_store_state :: "addr Connect4GameState" where
  "connect4_store_state = \<lparr>state_id = ''connect4-1'', gameType = ''connect4'', status = in_progress,
     mode = vs_ai, game_winner = None, gameOver = False, createdAt = 0, lastMove = None,
     board = snd (allocBoard [] connect4_example_board), currentPlayer = red,
     lastColumn = Some 2\<rparr>"

text \<open>The configuration the settings store starts with (settings.ts): no model is chosen.\<close>

definition default_config :: ProviderConfig where
  "default_config = \<lparr>provider = ''ollama'', model = [], url = Some ''http://localhost:11434'',
     apiKey = None, azureOpenAIApiInstanceName = None, azureOpenAIApiDeploymentName = None,
     azureOpenAIApiVersion = None, region = None, accessKeyId = None, secretAccessKey = None,
     crossRegion = None\<rparr>"

definition example_world :: World where
  "example_world = \<lparr>urlParses = (\<lambda>s. prefix ''http://'' s \<or> prefix ''https://'' s),
     fetch = (\<lambda>u. Inl (ErrorObject ''fetch failed'')),
     invokeTest = (\<lambda>c. None)\<rparr>"

text \<open>A provider in the style of the five above, to stand for the sixth in examples.\<close>

definition example_google :: Provider where
  "example_google = \<lparr>
     validateConfig = (\<lambda>c. Inr (validationOf
        (pushed (validateRequired (apiKey c) ''API key'') @
         pushed (validateRequired (Some (model c)) ''Model name'')) [])),
     testConnection = (\<lambda>c. Inr (makeTestRequest
        (clientTest example_world c (\<not> truthy (apiKey c)) ''Google API key is required'' [])))\<rparr>"

definition openai_config :: ProviderConfig where
  "openai_config = \<lparr>provider = ''openai'', model = ''gpt-4o-mini'', url = None,
     apiKey = Some ''sk-first'', azureOpenAIApiInstanceName = None,
     azureOpenAIApiDeploymentName = None, azureOpenAIApiVersion = None, region = None,
     accessKeyId = None, secretAccessKey = None, crossRegion = None\<rparr>"

text \<open>
  A handler for tic-tac-toe with the legality check and the message of \<open>TicTacToeLLM\<close>.
  The parser and the prompt template are stand-ins: a response is a sign for the row and
  a sign for the column, each a number from 0 to 2 as the move schema demands: one of the
  digits 0, 1 and 2, or the letter \<open>h\<close> for the number 0.5.
\<close>

definition example_number :: "char \<Rightarrow> number option" where
  "example_number ch =
     (if ch \<in> set ''012'' then Some (of_int (int (of_char ch) - 48))
      else if ch = CHR ''h'' then Some (1 / 2)
      else None)"

definition example_parse :: "string \<Rightarrow> string + (MovePosition \<times> string option)" where
  "example_parse responseText =
     (case responseText of
        [r, c] \<Rightarrow>
          (case (example_number r, example_number c) of
             (Some x, Some y) \<Rightarrow> Inr (\<lparr>row = x, col = y\<rparr>, None)
           | _ \<Rightarrow> Inl ''Error: out of range'')
      | _ \<Rightarrow> Inl ''Error: not a move'')"

text \<open>The text of the one number of the examples that is not an integer.\<close>

definition example_num :: "number \<Rightarrow> string" where
  "example_num n = ''0.5''"

definition tictactoe_llm :: "(TicTacBoardState TicTacToeLLMGameState, MovePosition) GameLLM" where
  "tictactoe_llm = \<lparr>llmGameType = ''TicTacToe'', parseResponse = example_parse,
     isValidMove = (\<lambda>gameState moveData.
        methodResult ''Cannot read properties of undefined''
          (TicTacToe_isValidMove gameState moveData)),
     getInvalidMoveMessage = (\<lambda>gameState moveData.
        methodResult ''Cannot read properties of undefined''
          (TicTacToe_getInvalidMoveMessage example_num gameState moveData)),
     formatPrompt = (\<lambda>gameState feedbackSection. Inr (''Return your move.'' @ feedbackSection))\<rparr>"

definition tictac_value_state :: "TicTacBoardState TicTacToeLLMGameState" where
  "tictac_value_state = \<lparr>state_id = ''tictactoe-1'', gameType = ''tictactoe'', status = in_progress,
     mode = vs_ai, game_winner = None, gameOver = False, createdAt = 0, lastMove = None,
     board = tictac_scenario_board, currentPlayer = PlayerX\<rparr>"

text \<open>A backend that gives the listed responses in turn, and throws after the last one.\<close>

definition scripted :: "string list \<Rightarrow> nat \<Rightarrow> string \<Rightarrow> Thrown + string" where
  "scripted replies n p =
     (if n < length replies then Inr (replies ! n)
      else Inl (thrownBy [] (Error ''no more replies'')))"

definition scripted_services :: "ProviderConfig \<Rightarrow> string list \<Rightarrow> Services" where
  "scripted_services config replies = \<lparr>world = example_world, googleProvider = example_google,
     providerConfig = config, getCurrentLLM = (\<lambda>c. Inr (scripted replies))\<rparr>"

text \<open>Runs of the move generator on the scenario board, with scripted backends.\<close>

definition run_four_illegal where
  "run_four_illegal = generateMove (scripted_services openai_config [''00'', ''01'', ''10'', ''11''])
     tictactoe_llm tictac_value_state 3 [] []"

definition run_two_illegal where
  "run_two_illegal = generateMove (scripted_services openai_config [''00'', ''11''])
     tictactoe_llm tictac_value_state 1 [] []"

definition run_unparsable_first where
  "run_unparsable_first = generateMove (scripted_services openai_config [''zz'', ''02''])
     tictactoe_llm tictac_value_state 3 [] []"

definition run_unparsable_second where
  "run_unparsable_second = generateMove (scripted_services openai_config [''00'', ''7'', ''02''])
     tictactoe_llm tictac_value_state 3 [] []"

definition run_fractional_row where
  "run_fractional_row = generateMove (scripted_services openai_config [''h0'', ''02''])
     tictactoe_llm tictac_value_state 3 [] []"

definition run_fractional_col where
  "run_fractional_col = generateMove (scripted_services openai_config [''0h'', ''02''])
     tictactoe_llm tictac_value_state 3 [] []"

definition run_default_config where
  "run_default_config = generateMove (scripted_services default_config [''02''])
     tictactoe_llm tictac_value_state 3 [] []"

definition run_no_api_key where
  "run_no_api_key = generateMove (scripted_services (openai_config\<lparr>apiKey := None\<rparr>) [''02''])
     tictactoe_llm tictac_value_state 3 [] []"

definition occupied_cell_move :: "TicTacMoveData GameMove" where
  "occupied_cell_move = \<lparr>playerId = ''human'', timestamp = 1,
     gameMoveData = \<lparr>position = \<lparr>row = 0, col = 0\<rparr>, moveSymbol = PlayerX\<rparr>\<rparr>"

definition free_cell_move :: "TicTacMoveData GameMove" where
  "free_cell_move = \<lparr>playerId = ''human'', timestamp = 1,
     gameMoveData = \<lparr>position = \<lparr>row = 0, col = 2\<rparr>, moveSymbol = PlayerX\<rparr>\<rparr>"

section \<open>Properties of tic-tac-toe\<close>

lemma wf_tictacE:
  assumes "wf_tictac b"
  obtains a0 a1 a2 b0 b1 b2 c0 c1 c2 where "b = [[a0, a1, a2], [b0, b1, b2], [c0, c1, c2]]"
proof -
  from assms have l: "length b = 3" and r: "\<forall>r \<in> set b. length r = 3"
    by (auto simp: wf_tictac_def list_all_iff)
  from l obtain x y z where b: "b = [x, y, z]"
    by (auto simp: length_Suc_conv numeral_3_eq_3)
  with r have "length x = 3" "length y = 3" "length z = 3" by auto
  then obtain a0 a1 a2 b0 b1 b2 c0 c1 c2 where
    "x = [a0, a1, a2]" "y = [b0, b1, b2]" "z = [c0, c1, c2]"
    by (auto simp: length_Suc_conv numeral_3_eq_3)
  with b show ?thesis using that by blast
qed

lemma cell_simps [simp]:
  "cell [x, y, z] 0 c = js_nth x c"
  "cell [x, y, z] 1 c = js_nth y c"
  "cell [x, y, z] 2 c = js_nth z c"
  by (simp_all add: cell_def js_nth_def)

lemma js_nth3 [simp]:
  "js_nth [a, b, c] 0 = Some a"
  "js_nth [a, b, c] 1 = Some b"
  "js_nth [a, b, c] 2 = Some c"
  by (simp_all add: js_nth_def)

lemma checkColumns_3: "checkColumns b 3 = None"
  by (subst checkColumns.simps) simp

lemma checkColumns_2: "checkColumns b 2 =
   (if threeEqual (cell b 0 2) (cell b 1 2) (cell b 2 2)
    then Some \<lparr>isEnded = True, winner = cell b 0 2\<rparr> else None)"
  by (subst checkColumns.simps) (simp add: checkColumns_3)

lemma checkColumns_1: "checkColumns b 1 =
   (if threeEqual (cell b 0 1) (cell b 1 1) (cell b 2 1)
    then Some \<lparr>isEnded = True, winner = cell b 0 1\<rparr> else checkColumns b 2)"
  by (subst checkColumns.simps) simp

lemma checkColumns_0: "checkColumns b 0 =
   (if threeEqual (cell b 0 0) (cell b 1 0) (cell b 2 0)
    then Some \<lparr>isEnded = True, winner = cell b 0 0\<rparr> else checkColumns b 1)"
  by (subst checkColumns.simps) simp

lemma threeEqual_completed: "threeEqual a b c = line_completed (a, b, c)"
  by (auto simp: threeEqual_def truthy_def line_completed_def split: option.splits)

lemma checkGameEnd_find:
  assumes "wf_tictac (board s)"
  shows "TicTacToe_checkGameEnd s =
     (case find line_completed (board_lines (board s)) of
        Some l \<Rightarrow> \<lparr>isEnded = True, winner = occupant l\<rparr>
      | None \<Rightarrow> if fully_occupied (board s) then \<lparr>isEnded = True, winner = Some ''draw''\<rparr>
                else \<lparr>isEnded = False, winner = None\<rparr>)"
proof -
  from assms obtain a0 a1 a2 b0 b1 b2 c0 c1 c2 where
    b: "board s = [[a0, a1, a2], [b0, b1, b2], [c0, c1, c2]]"
    by (rule wf_tictacE)
  have full: "isFull (board s) = fully_occupied (board s)"
    by (simp add: b isFull_def fully_occupied_def)
  show ?thesis
    unfolding TicTacToe_checkGameEnd_def Let_def full [symmetric]
    by (simp add: b board_lines_def checkColumns_0 checkColumns_1 checkColumns_2
        threeEqual_completed occupant_def)
qed

text \<open>
  Claim C7. On a three-by-three board, when some row, column or diagonal holds three equal
  non-empty symbols, \<open>checkGameEnd\<close> returns \<open>isEnded = true\<close> with the occupant of a
  completed line as winner (the first one in the order of the scan; when every completed
  line has the same occupant, that occupant); when no line is completed and no cell is
  free, it returns \<open>isEnded = true\<close> with winner \<open>"draw"\<close>; otherwise it returns
  \<open>isEnded = false\<close> and no winner.
\<close>

theorem TicTacToe_checkGameEnd_terminal:
  assumes "wf_tictac (board s)"
  shows "(\<forall>l \<in> set (board_lines (board s)). line_completed l \<longrightarrow>
            isEnded (TicTacToe_checkGameEnd s) \<and>
            (\<exists>l' \<in> set (board_lines (board s)).
                line_completed l' \<and> winner (TicTacToe_checkGameEnd s) = occupant l')) \<and>
         (\<forall>p. (\<exists>l \<in> set (board_lines (board s)). line_completed l) \<and>
              (\<forall>l \<in> set (board_lines (board s)). line_completed l \<longrightarrow> occupant l = p) \<longrightarrow>
              TicTacToe_checkGameEnd s = \<lparr>isEnded = True, winner = p\<rparr>) \<and>
         ((\<forall>l \<in> set (board_lines (board s)). \<not> line_completed l) \<and> fully_occupied (board s) \<longrightarrow>
            TicTacToe_checkGameEnd s = \<lparr>isEnded = True, winner = Some ''draw''\<rparr>) \<and>
         ((\<forall>l \<in> set (board_lines (board s)). \<not> line_completed l) \<and> \<not> fully_occupied (board s) \<longrightarrow>
            TicTacToe_checkGameEnd s = \<lparr>isEnded = False, winner = None\<rparr>)"
proof -
  let ?L = "board_lines (board s)"
  note eq = checkGameEnd_find [OF assms]
  have none: "(\<forall>l \<in> set ?L. \<not> line_completed l) \<Longrightarrow> find line_completed ?L = None"
    unfolding find_None_iff by blast
  have some: "\<exists>l' \<in> set ?L. line_completed l' \<and> find line_completed ?L = Some l'"
    if "l \<in> set ?L" "line_completed l" for l
  proof (cases "find line_completed ?L")
    case None
    then have "\<forall>x \<in> set ?L. \<not> line_completed x"
      unfolding find_None_iff by blast
    with that show ?thesis by blast
  next
    case (Some l')
    then obtain i where "i < length ?L" "line_completed (?L ! i)" "l' = ?L ! i"
      unfolding find_Some_iff by blast
    with Some show ?thesis by (metis nth_mem)
  qed
  have c1: "isEnded (TicTacToe_checkGameEnd s) \<and>
      (\<exists>l' \<in> set ?L. line_completed l' \<and> winner (TicTacToe_checkGameEnd s) = occupant l')"
    if "l \<in> set ?L" "line_completed l" for l
    using some [OF that] by (auto simp: eq)
  have c2: "TicTacToe_checkGameEnd s = \<lparr>isEnded = True, winner = p\<rparr>"
    if "\<exists>l \<in> set ?L. line_completed l" "\<forall>l \<in> set ?L. line_completed l \<longrightarrow> occupant l = p" for p
  proof -
    from that(1) obtain l where "l \<in> set ?L" "line_completed l" by blast
    from some [OF this] obtain l' where "l' \<in> set ?L" "line_completed l'"
      "find line_completed ?L = Some l'" by blast
    with that(2) show ?thesis by (simp add: eq)
  qed
  show ?thesis
    using c1 c2 none by (simp add: eq)
qed

theorem TicTacToe_checkGameEnd_terminal_witness:
  "wf_tictac (board tictac_row_state) \<and>
   (\<exists>l \<in> set (board_lines (board tictac_row_state)). line_completed l) \<and>
   TicTacToe_checkGameEnd tictac_row_state = \<lparr>isEnded = True, winner = Some ''X''\<rparr> \<and>
   wf_tictac (board tictac_draw_state) \<and>
   \<not> (\<exists>l \<in> set (board_lines (board tictac_draw_state)). line_completed l) \<and>
   fully_occupied (board tictac_draw_state) \<and>
   TicTacToe_checkGameEnd tictac_draw_state = \<lparr>isEnded = True, winner = Some ''draw''\<rparr> \<and>
   wf_tictac (board tictac_value_state) \<and>
   \<not> (\<exists>l \<in> set (board_lines (board tictac_value_state)). line_completed l) \<and>
   \<not> fully_occupied (board tictac_value_state) \<and>
   TicTacToe_checkGameEnd tictac_value_state = \<lparr>isEnded = False, winner = None\<rparr>"
proof -
  have wf: "wf_tictac (board tictac_row_state)"
    by (simp add: tictac_row_state_def tictac_row_board_def wf_tictac_def)
  have ex: "\<exists>l \<in> set (board_lines (board tictac_row_state)). line_completed l"
    by (simp add: tictac_row_state_def tictac_row_board_def board_lines_def line_completed_def occupant_def)
  have all: "\<forall>l \<in> set (board_lines (board tictac_row_state)). line_completed l \<longrightarrow> occupant l = Some ''X''"
    by (simp add: tictac_row_state_def tictac_row_board_def board_lines_def line_completed_def occupant_def)
  from TicTacToe_checkGameEnd_terminal [OF wf] ex all
  have won: "TicTacToe_checkGameEnd tictac_row_state = \<lparr>isEnded = True, winner = Some ''X''\<rparr>"
    by blast
  have wfd: "wf_tictac (board tictac_draw_state)"
    by (simp add: tictac_draw_state_def tictac_draw_board_def wf_tictac_def)
  have nod: "\<forall>l \<in> set (board_lines (board tictac_draw_state)). \<not> line_completed l"
    by (simp add: tictac_draw_state_def tictac_draw_board_def board_lines_def line_completed_def)
  have fulld: "fully_occupied (board tictac_draw_state)"
    by (simp add: tictac_draw_state_def tictac_draw_board_def fully_occupied_def)
  from TicTacToe_checkGameEnd_terminal [OF wfd] nod fulld
  have draw: "TicTacToe_checkGameEnd tictac_draw_state = \<lparr>isEnded = True, winner = Some ''draw''\<rparr>"
    by blast
  have wfv: "wf_tictac (board tictac_value_state)"
    by (simp add: tictac_value_state_def tictac_scenario_board_def wf_tictac_def)
  have nov: "\<forall>l \<in> set (board_lines (board tictac_value_state)). \<not> line_completed l"
    by (simp add: tictac_value_state_def tictac_scenario_board_def board_lines_def line_completed_def)
  have notfull: "\<not> fully_occupied (board tictac_value_state)"
    by (simp add: tictac_value_state_def tictac_scenario_board_def fully_occupied_def)
  from TicTacToe_checkGameEnd_terminal [OF wfv] nov notfull
  have going: "TicTacToe_checkGameEnd tictac_value_state = \<lparr>isEnded = False, winner = None\<rparr>"
    by blast
  from wf ex won wfd nod fulld draw wfv nov notfull going show ?thesis by blast
qed

section \<open>Properties of Connect Four\<close>

lemma wf_connect4_cell:
  assumes "wf_connect4 b" "0 \<le> r" "r \<le> 5" "0 \<le> c" "c \<le> 6"
  shows "cell b r c = Some (b ! nat r ! nat c)"
proof -
  from assms have "nat r < length b" by (simp add: wf_connect4_def)
  moreover from this assms have "length (b ! nat r) = 7"
    by (simp add: wf_connect4_def list_all_length)
  ultimately show ?thesis using assms by (simp add: cell_def js_nth_def)
qed

lemma lowestEmptyFrom_spec:
  "(lowestEmptyFrom b c r = - 1 \<and> (\<forall>r'. 0 \<le> r' \<and> r' \<le> r \<longrightarrow> cell b r' c \<noteq> Some EmptyCell)) \<or>
   (0 \<le> lowestEmptyFrom b c r \<and> lowestEmptyFrom b c r \<le> r \<and>
    cell b (lowestEmptyFrom b c r) c = Some EmptyCell \<and>
    (\<forall>r'. lowestEmptyFrom b c r < r' \<and> r' \<le> r \<longrightarrow> cell b r' c \<noteq> Some EmptyCell))"
proof (induction b c r rule: lowestEmptyFrom.induct)
  case (1 b c r)
  show ?case
  proof (cases "r \<ge> 0")
    case False
    then have "lowestEmptyFrom b c r = - 1" by (subst lowestEmptyFrom.simps) simp
    with False show ?thesis by auto
  next
    case True
    show ?thesis
    proof (cases "cell b r c = Some EmptyCell")
      case e: True
      from True e have "lowestEmptyFrom b c r = r" by (subst lowestEmptyFrom.simps) simp
      with True e show ?thesis by auto
    next
      case ne: False
      from True ne have eq: "lowestEmptyFrom b c r = lowestEmptyFrom b c (r - 1)"
        by (subst lowestEmptyFrom.simps) simp
      have step: "cell b r' c \<noteq> Some EmptyCell" if "r' \<le> r" "\<not> r' \<le> r - 1" for r'
      proof -
        from that have "r' = r" by simp
        with ne show ?thesis by simp
      qed
      let ?k = "lowestEmptyFrom b c (r - 1)"
      from "1.IH" [OF True ne] consider
          (full) "?k = - 1" "\<forall>r'. 0 \<le> r' \<and> r' \<le> r - 1 \<longrightarrow> cell b r' c \<noteq> Some EmptyCell"
        | (found) "0 \<le> ?k" "?k \<le> r - 1" "cell b ?k c = Some EmptyCell"
            "\<forall>r'. ?k < r' \<and> r' \<le> r - 1 \<longrightarrow> cell b r' c \<noteq> Some EmptyCell"
        by blast
      then show ?thesis
      proof cases
        case full
        have "\<forall>r'. 0 \<le> r' \<and> r' \<le> r \<longrightarrow> cell b r' c \<noteq> Some EmptyCell"
          using full(2) step by blast
        with full(1) show ?thesis unfolding eq by blast
      next
        case found
        have "\<forall>r'. ?k < r' \<and> r' \<le> r \<longrightarrow> cell b r' c \<noteq> Some EmptyCell"
          using found(4) step by blast
        moreover from found(2) have "?k \<le> r" by simp
        ultimately show ?thesis unfolding eq using found(1,3) by blast
      qed
    qed
  qed
qed

lemma withPiece_cell:
  "cell (withPiece b r c p) r' c' =
     (case cell b r' c' of None \<Rightarrow> None
      | Some x \<Rightarrow> Some (if r' = r \<and> c' = c then Piece p else x))"
  by (auto simp: cell_def js_nth_def withPiece_def nth_enumerate_eq split: option.splits)

lemma gravity_top_empty:
  assumes "gravity b" "0 \<le> c" "c \<le> 6" "0 \<le> r" "r \<le> 5" "cell b r c = Some EmptyCell"
  shows "cell b 0 c = Some EmptyCell"
proof (rule ccontr)
  assume top: "cell b 0 c \<noteq> Some EmptyCell"
  have less: "cell b (int k) c \<noteq> Some EmptyCell" if "k \<le> 5" for k
    using that
  proof (induction k)
    case 0
    with top show ?case by simp
  next
    case (Suc k)
    then have "cell b (int k) c \<noteq> Some EmptyCell" by simp
    moreover from Suc.prems assms(2,3) have "c \<in> {0..6}" "int k \<in> {0..4}" by auto
    ultimately have "cell b (int k + 1) c \<noteq> Some EmptyCell"
      using assms(1) unfolding gravity_def by blast
    then show ?case by (simp add: add.commute)
  qed
  from assms(4,5) have "nat r \<le> 5" by simp
  from less [OF this] assms(4,6) show False by simp
qed

lemma Connect4_applyMove_lowest:
  assumes "cell (board s) r0 (column m) = Some EmptyCell" "0 \<le> r0" "r0 \<le> 5"
  shows "\<exists>s' r. Connect4_applyMove s m = Inr s' \<and> 0 \<le> r \<and> r \<le> 5 \<and>
           r = findLowestEmptyRow (board s) (column m) \<and>
           cell (board s) r (column m) = Some EmptyCell \<and>
           (\<forall>r'. r < r' \<and> r' \<le> 5 \<longrightarrow> cell (board s) r' (column m) \<noteq> Some EmptyCell) \<and>
           board s' = withPiece (board s) r (column m) (player m) \<and>
           currentPlayer s' = (if player m = red then yellow else red) \<and>
           lastColumn s' = Some (column m)"
proof -
  let ?r = "findLowestEmptyRow (board s) (column m)"
  from lowestEmptyFrom_spec [of "board s" "column m" 5] assms
  have r: "0 \<le> ?r" "?r \<le> 5" "cell (board s) ?r (column m) = Some EmptyCell"
    "\<forall>r'. ?r < r' \<and> r' \<le> 5 \<longrightarrow> cell (board s) r' (column m) \<noteq> Some EmptyCell"
    unfolding findLowestEmptyRow_def by blast+
  then have "?r \<noteq> - 1" by simp
  then have "Connect4_applyMove s m = Inr (s\<lparr>
        board := withPiece (board s) ?r (column m) (player m),
        currentPlayer := (if player m = red then yellow else red),
        lastColumn := Some (column m)\<rparr>)"
    by (simp add: Connect4_applyMove_def Let_def)
  with r show ?thesis by simp
qed

lemma sublist_full: "sublist ''full'' (''Column '' @ n @ '' is full. Choose an OPEN column.'')"
proof -
  have "''Column '' @ n @ '' is full. Choose an OPEN column.'' =
      (''Column '' @ n @ '' is '') @ ''full'' @ ''. Choose an OPEN column.''"
    by simp
  then show ?thesis unfolding sublist_def by blast
qed

text \<open>
  Claim C8. In a position of Connect Four (six rows of seven cells, no piece above an
  empty cell) and for a column between 0 and 6: when the top cell (row 0) of the column is
  occupied, the move is rejected and the invalid-move message contains the word
  \<open>full\<close>; when the column has an empty cell, the move is accepted and \<open>applyMove\<close>
  puts the piece into the empty cell of the column with the greatest row index, every
  cell below it in the column being occupied, and changes no other cell.
\<close>

theorem Connect4_column_full_or_open:
  assumes "wf_connect4 (board s)" "gravity (board s)" "0 \<le> column m" "column m \<le> 6"
  shows "(cell (board s) 0 (column m) \<noteq> Some EmptyCell \<longrightarrow>
            \<not> Connect4_isValidMove s m \<and> sublist ''full'' (Connect4_getInvalidMoveMessage num s m)) \<and>
         ((\<exists>r \<in> {0..5}. cell (board s) r (column m) = Some EmptyCell) \<longrightarrow>
            Connect4_isValidMove s m \<and>
            (\<exists>s' r. Connect4_applyMove s m = Inr s' \<and> 0 \<le> r \<and> r \<le> 5 \<and>
               cell (board s) r (column m) = Some EmptyCell \<and>
               (\<forall>r'. r < r' \<and> r' \<le> 5 \<longrightarrow> cell (board s) r' (column m) \<noteq> Some EmptyCell) \<and>
               cell (board s') r (column m) = Some (Piece (player m)) \<and>
               (\<forall>r' c'. (r', c') \<noteq> (r, column m) \<longrightarrow> cell (board s') r' c' = cell (board s) r' c') \<and>
               (\<forall>r'. r < r' \<and> r' \<le> 5 \<longrightarrow> cell (board s') r' (column m) \<noteq> Some EmptyCell)))"
proof (intro conjI impI)
  assume "cell (board s) 0 (column m) \<noteq> Some EmptyCell"
  with assms(3,4) show "\<not> Connect4_isValidMove s m"
    by (simp add: Connect4_isValidMove_def)
next
  from assms(3,4) show "sublist ''full'' (Connect4_getInvalidMoveMessage num s m)"
    by (simp add: Connect4_getInvalidMoveMessage_def sublist_full del: append.simps)
next
  assume ex: "\<exists>r \<in> {0..5}. cell (board s) r (column m) = Some EmptyCell"
  then obtain r0 where r0: "0 \<le> r0" "r0 \<le> 5" "cell (board s) r0 (column m) = Some EmptyCell"
    by auto
  from gravity_top_empty [OF assms(2,3,4) r0] assms(3,4)
  show "Connect4_isValidMove s m" by (simp add: Connect4_isValidMove_def)
next
  assume ex: "\<exists>r \<in> {0..5}. cell (board s) r (column m) = Some EmptyCell"
  then obtain r0 where r0: "0 \<le> r0" "r0 \<le> 5" "cell (board s) r0 (column m) = Some EmptyCell"
    by auto
  from Connect4_applyMove_lowest [OF r0(3,1,2)] obtain s' r where
    a: "Connect4_applyMove s m = Inr s'" "0 \<le> r" "r \<le> 5"
      "cell (board s) r (column m) = Some EmptyCell"
      "\<forall>r'. r < r' \<and> r' \<le> 5 \<longrightarrow> cell (board s) r' (column m) \<noteq> Some EmptyCell"
      "board s' = withPiece (board s) r (column m) (player m)"
    by blast
  have "cell (board s') r (column m) = Some (Piece (player m))"
    by (simp add: a(6) withPiece_cell a(4))
  moreover have "\<forall>r' c'. (r', c') \<noteq> (r, column m) \<longrightarrow> cell (board s') r' c' = cell (board s) r' c'"
    by (auto simp: a(6) withPiece_cell split: option.splits)
  moreover from this a(5)
  have "\<forall>r'. r < r' \<and> r' \<le> 5 \<longrightarrow> cell (board s') r' (column m) \<noteq> Some EmptyCell"
    by auto
  ultimately show "\<exists>s' r. Connect4_applyMove s m = Inr s' \<and> 0 \<le> r \<and> r \<le> 5 \<and>
               cell (board s) r (column m) = Some EmptyCell \<and>
               (\<forall>r'. r < r' \<and> r' \<le> 5 \<longrightarrow> cell (board s) r' (column m) \<noteq> Some EmptyCell) \<and>
               cell (board s') r (column m) = Some (Piece (player m)) \<and>
               (\<forall>r' c'. (r', c') \<noteq> (r, column m) \<longrightarrow> cell (board s') r' c' = cell (board s) r' c') \<and>
               (\<forall>r'. r < r' \<and> r' \<le> 5 \<longrightarrow> cell (board s') r' (column m) \<noteq> Some EmptyCell)"
    using a(1-5) by (intro exI [of _ s'] exI [of _ r] conjI)
qed

lemma int_upto_6: "{0..6::int} = {0, 1, 2, 3, 4, 5, 6}"
  by auto

lemma int_upto_5: "{0..5::int} = {0, 1, 2, 3, 4, 5}"
  by auto

lemma int_upto_4: "{0..4::int} = {0, 1, 2, 3, 4}"
  by auto

lemma connect4_example_wf: "wf_connect4 (board connect4_example_state)"
  by (simp add: connect4_example_state_def connect4_example_board_def wf_connect4_def)

lemma connect4_example_gravity: "gravity (board connect4_example_state)"
  by (simp add: connect4_example_state_def connect4_example_board_def gravity_def
      int_upto_6 int_upto_4 cell_def js_nth_def)

theorem Connect4_column_full_or_open_witness:
  "wf_connect4 (board connect4_example_state) \<and> gravity (board connect4_example_state) \<and>
   cell (board connect4_example_state) 0 3 \<noteq> Some EmptyCell \<and>
   \<not> Connect4_isValidMove connect4_example_state \<lparr>column = 3, player = red\<rparr> \<and>
   sublist ''full'' (Connect4_getInvalidMoveMessage example_num connect4_example_state \<lparr>column = 3, player = red\<rparr>) \<and>
   cell (board connect4_example_state) 4 2 = Some EmptyCell \<and>
   Connect4_isValidMove connect4_example_state \<lparr>column = 2, player = red\<rparr> \<and>
   (\<exists>s'. Connect4_applyMove connect4_example_state \<lparr>column = 2, player = red\<rparr> = Inr s' \<and>
      cell (board s') 4 2 = Some (Piece red) \<and> cell (board s') 0 2 = Some EmptyCell)"
proof -
  let ?s = connect4_example_state
  let ?full = "\<lparr>column = 3, player = red\<rparr>"
  let ?open = "\<lparr>column = 2, player = red\<rparr>"
  note wf = connect4_example_wf and gr = connect4_example_gravity
  have top: "cell (board ?s) 0 3 \<noteq> Some EmptyCell"
    by (simp add: connect4_example_state_def connect4_example_board_def cell_def js_nth_def)
  have e4: "cell (board ?s) 4 2 = Some EmptyCell"
    and e5: "cell (board ?s) 5 2 \<noteq> Some EmptyCell"
    and e0: "cell (board ?s) 0 2 = Some EmptyCell"
    by (simp_all add: connect4_example_state_def connect4_example_board_def cell_def js_nth_def)
  then have ex: "\<exists>r \<in> {0..5}. cell (board ?s) r (column ?open) = Some EmptyCell"
    by (auto simp: int_upto_5)
  have sel: "column ?full = 3" "column ?open = 2" "player ?open = red"
    by simp_all
  have bounds: "0 \<le> column ?full" "column ?full \<le> 6" "0 \<le> column ?open" "column ?open \<le> 6"
    by simp_all
  from top have top': "cell (board ?s) 0 (column ?full) \<noteq> Some EmptyCell"
    by simp
  from Connect4_column_full_or_open [where num = example_num, OF wf gr bounds(1,2), THEN conjunct1, THEN mp, OF top']
  have rejected: "\<not> Connect4_isValidMove ?s ?full"
    "sublist ''full'' (Connect4_getInvalidMoveMessage example_num ?s ?full)"
    by blast+
  note th = Connect4_column_full_or_open [where num = example_num, OF wf gr bounds(3,4), THEN conjunct2, THEN mp, OF ex]
  from th have accepted: "Connect4_isValidMove ?s ?open" by blast
  from th obtain s' r where a: "Connect4_applyMove ?s ?open = Inr s'" "0 \<le> r" "r \<le> 5"
      "cell (board ?s) r 2 = Some EmptyCell"
      "\<forall>r'. r < r' \<and> r' \<le> 5 \<longrightarrow> cell (board ?s) r' 2 \<noteq> Some EmptyCell"
      "cell (board s') r 2 = Some (Piece red)"
      "\<forall>r' c'. (r', c') \<noteq> (r, 2) \<longrightarrow> cell (board s') r' c' = cell (board ?s) r' c'"
    unfolding sel by blast
  have "r = 4"
  proof (rule ccontr)
    assume "r \<noteq> 4"
    with a(2,3) consider "r < 4" | "r = 5" by linarith
    then show False
    proof cases
      case 1
      with a(5) have "cell (board ?s) 4 2 \<noteq> Some EmptyCell" by simp
      with e4 show False by simp
    next
      case 2
      with a(4) e5 show False by simp
    qed
  qed
  with a(6,7) e0 have "cell (board s') 4 2 = Some (Piece red)" "cell (board s') 0 2 = Some EmptyCell"
    by simp_all
  with a(1) have "\<exists>s'. Connect4_applyMove ?s ?open = Inr s' \<and>
      cell (board s') 4 2 = Some (Piece red) \<and> cell (board s') 0 2 = Some EmptyCell"
    by blast
  with wf gr top rejected e4 accepted show ?thesis by blast
qed

lemma withPiece_wf: "wf_connect4 b \<Longrightarrow> wf_connect4 (withPiece b r c p)"
  by (auto simp: wf_connect4_def withPiece_def list_all_iff in_set_enumerate_eq)

lemma gravity_emptyBoard: "wf_connect4 emptyBoard \<and> gravity emptyBoard"
proof -
  have wf: "wf_connect4 emptyBoard"
    by (simp add: emptyBoard_def wf_connect4_def list_all_iff)
  have "cell emptyBoard r c = Some EmptyCell" if "0 \<le> r" "r \<le> 5" "0 \<le> c" "c \<le> 6" for r c
  proof -
    from that have "emptyBoard ! nat r ! nat c = EmptyCell"
      by (simp add: emptyBoard_def)
    with wf_connect4_cell [OF wf that] show ?thesis by simp
  qed
  then show ?thesis using wf by (auto simp: gravity_def)
qed

lemma gravity_applyMove:
  assumes "wf_connect4 (board s)" "gravity (board s)" "Connect4_applyMove s m = Inr s'"
  shows "wf_connect4 (board s') \<and> gravity (board s')"
proof -
  let ?r = "findLowestEmptyRow (board s) (column m)"
  from assms(3) have r: "?r \<noteq> - 1"
    and b': "board s' = withPiece (board s) ?r (column m) (player m)"
    by (auto simp: Connect4_applyMove_def Let_def split: if_splits)
  from lowestEmptyFrom_spec [of "board s" "column m" 5] r
  have low: "\<forall>r'. ?r < r' \<and> r' \<le> 5 \<longrightarrow> cell (board s) r' (column m) \<noteq> Some EmptyCell"
    unfolding findLowestEmptyRow_def by blast
  have "cell (board s') (r' + 1) c' \<noteq> Some EmptyCell"
    if "c' \<in> {0..6}" "r' \<in> {0..4}" "cell (board s') r' c' \<noteq> Some EmptyCell" for r' c'
  proof (cases "r' = ?r \<and> c' = column m")
    case True
    with that(2) low have "cell (board s) (r' + 1) c' \<noteq> Some EmptyCell" by simp
    then show ?thesis by (auto simp: b' withPiece_cell split: option.splits)
  next
    case False
    with that(3) have "cell (board s) r' c' \<noteq> Some EmptyCell"
      by (auto simp: b' withPiece_cell split: option.splits)
    with assms(2) that(1,2) have "cell (board s) (r' + 1) c' \<noteq> Some EmptyCell"
      unfolding gravity_def by blast
    then show ?thesis by (auto simp: b' withPiece_cell split: option.splits)
  qed
  then have "gravity (board s')" unfolding gravity_def by blast
  with withPiece_wf [OF assms(1)] b' show ?thesis by simp
qed

text \<open>
  Claim C10. In a position of Connect Four and for a column between 0 and 6 that has an
  empty cell, \<open>isValidMove\<close> accepts the move whatever colour the move names (it never
  reads \<open>moveData.player\<close> or \<open>gameState.currentPlayer\<close>), \<open>applyMove\<close> puts a piece
  of the colour \<open>moveData.player\<close> into the lowest empty cell of the column, and the
  resulting \<open>currentPlayer\<close> is the other colour than \<open>moveData.player\<close>.
\<close>

theorem Connect4_player_not_checked:
  assumes "wf_connect4 (board s)" "gravity (board s)" "0 \<le> column m" "column m \<le> 6"
    and "\<exists>r \<in> {0..5}. cell (board s) r (column m) = Some EmptyCell"
  shows "Connect4_isValidMove s m \<and>
         (\<forall>p. Connect4_isValidMove s (m\<lparr>player := p\<rparr>) = Connect4_isValidMove s m) \<and>
         (\<exists>s' r. Connect4_applyMove s m = Inr s' \<and>
            r = findLowestEmptyRow (board s) (column m) \<and> 0 \<le> r \<and> r \<le> 5 \<and>
            cell (board s) r (column m) = Some EmptyCell \<and>
            cell (board s') r (column m) = Some (Piece (player m)) \<and>
            currentPlayer s' = (if player m = red then yellow else red))"
proof -
  from assms(5) obtain r0 where r0: "0 \<le> r0" "r0 \<le> 5" "cell (board s) r0 (column m) = Some EmptyCell"
    by auto
  from gravity_top_empty [OF assms(2,3,4) r0] assms(3,4)
  have valid: "Connect4_isValidMove s m" by (simp add: Connect4_isValidMove_def)
  have indep: "\<forall>p. Connect4_isValidMove s (m\<lparr>player := p\<rparr>) = Connect4_isValidMove s m"
    by (simp add: Connect4_isValidMove_def)
  from Connect4_applyMove_lowest [OF r0(3,1,2)] obtain s' r where
    a: "Connect4_applyMove s m = Inr s'" "0 \<le> r" "r \<le> 5"
      "r = findLowestEmptyRow (board s) (column m)"
      "cell (board s) r (column m) = Some EmptyCell"
      "board s' = withPiece (board s) r (column m) (player m)"
      "currentPlayer s' = (if player m = red then yellow else red)"
    by blast
  have "cell (board s') r (column m) = Some (Piece (player m))"
    by (simp add: a(6) withPiece_cell a(5))
  with a have "\<exists>s' r. Connect4_applyMove s m = Inr s' \<and>
            r = findLowestEmptyRow (board s) (column m) \<and> 0 \<le> r \<and> r \<le> 5 \<and>
            cell (board s) r (column m) = Some EmptyCell \<and>
            cell (board s') r (column m) = Some (Piece (player m)) \<and>
            currentPlayer s' = (if player m = red then yellow else red)"
    by (intro exI [of _ s'] exI [of _ r] conjI)
  with valid indep show ?thesis by blast
qed

theorem Connect4_player_not_checked_witness:
  "wf_connect4 (board connect4_example_state) \<and> gravity (board connect4_example_state) \<and>
   (\<exists>r \<in> {0..5}. cell (board connect4_example_state) r 2 = Some EmptyCell) \<and>
   currentPlayer connect4_example_state = red \<and>
   Connect4_isValidMove connect4_example_state \<lparr>column = 2, player = yellow\<rparr> \<and>
   (\<exists>s' r. Connect4_applyMove connect4_example_state \<lparr>column = 2, player = yellow\<rparr> = Inr s' \<and>
      cell (board s') r 2 = Some (Piece yellow) \<and> currentPlayer s' = red)"
proof -
  let ?s = connect4_example_state
  let ?m = "\<lparr>column = 2, player = yellow\<rparr>"
  have "cell (board ?s) 4 2 = Some EmptyCell"
    by (simp add: connect4_example_state_def connect4_example_board_def cell_def js_nth_def)
  then have ex: "\<exists>r \<in> {0..5}. cell (board ?s) r 2 = Some EmptyCell"
    by (auto simp: int_upto_5)
  have cur: "currentPlayer ?s = red" by (simp add: connect4_example_state_def)
  have sel: "column ?m = 2" "player ?m = yellow" "(if yellow = red then yellow else red) = red"
    by simp_all
  have bounds: "0 \<le> column ?m" "column ?m \<le> 6"
    by simp_all
  from ex have ex': "\<exists>r \<in> {0..5}. cell (board ?s) r (column ?m) = Some EmptyCell"
    by simp
  note th = Connect4_player_not_checked
    [OF connect4_example_wf connect4_example_gravity bounds ex', unfolded sel]
  from th have "Connect4_isValidMove ?s ?m"
    and "\<exists>s' r. Connect4_applyMove ?s ?m = Inr s' \<and>
      cell (board s') r 2 = Some (Piece yellow) \<and> currentPlayer s' = red"
    by blast+
  with connect4_example_wf connect4_example_gravity ex cur show ?thesis by blast
qed

section \<open>Properties of the games on the store\<close>

lemma lookup_append_old [simp]: "p < length h \<Longrightarrow> lookup (h @ k) p = lookup h p"
  by (simp add: lookup_def nth_append)

lemma rowAt_append_old: "rowAt h q = Some xs \<Longrightarrow> rowAt (h @ k) q = Some xs"
  by (auto simp: rowAt_def lookup_def nth_append split: if_splits option.splits js_array.splits)

lemma those_map_Some:
  "those (map f xs) = Some ys \<longleftrightarrow> length ys = length xs \<and> (\<forall>i < length xs. f (xs ! i) = Some (ys ! i))"
proof (induction xs arbitrary: ys)
  case Nil
  then show ?case by auto
next
  case (Cons x xs)
  show ?case
  proof (cases ys)
    case Nil
    then show ?thesis by (auto split: option.splits)
  next
    case (Cons y ys')
    then show ?thesis
      by (auto simp: Cons.IH less_Suc_eq_0_disj split: option.splits)
  qed
qed

lemma boardAt_prefix:
  assumes "boardAt h p = Some b" "prefix h h'"
  shows "boardAt h' p = Some b"
proof -
  from assms(2) obtain k where h': "h' = h @ k" by (auto simp: prefix_def)
  from assms(1) obtain qs where qs: "lookup h p = Some (Rows qs)" "those (map (rowAt h) qs) = Some b"
    by (auto simp: boardAt_def split: option.splits js_array.splits)
  from qs(1) have p: "p < length h" by (auto simp: lookup_def split: if_splits)
  from qs(2) have "those (map (rowAt (h @ k)) qs) = Some b"
    by (auto simp: those_map_Some rowAt_append_old)
  with qs(1) p show ?thesis by (simp add: boardAt_def h')
qed

lemma boardAt_allocBoard:
  assumes "allocBoard h b = (h1, a)"
  shows "boardAt h1 a = Some b" "prefix h h1" "a = length h + length b"
    "lookup h1 a = Some (Rows [length h ..< length h + length b])"
    "\<And>i. i < length b \<Longrightarrow> lookup h1 (length h + i) = Some (Cells (b ! i))"
    "length h1 = length h + length b + 1"
proof -
  from assms have h1: "h1 = h @ map Cells b @ [Rows [length h ..< length h + length b]]"
    and a: "a = length h + length b"
    by (auto simp: allocBoard_def)
  show "prefix h h1" by (simp add: h1)
  show "a = length h + length b" by (rule a)
  show la: "lookup h1 a = Some (Rows [length h ..< length h + length b])"
    by (simp add: h1 a lookup_def nth_append)
  show lr: "lookup h1 (length h + i) = Some (Cells (b ! i))" if "i < length b" for i
    using that by (simp add: h1 lookup_def nth_append)
  show "length h1 = length h + length b + 1" by (simp add: h1)
  have "those (map (rowAt h1) [length h ..< length h + length b]) = Some b"
    by (simp add: those_map_Some rowAt_def lr)
  with la show "boardAt h1 a = Some b" by (simp add: boardAt_def)
qed

lemma isInteger_of_int [simp]: "isInteger (of_int i)"
  by (simp add: isInteger_def)

lemma js_at_of_int [simp]: "js_at xs (of_int i) = js_nth xs i"
  by (simp add: js_at_def)

lemma js_at_Some:
  assumes "js_at xs n = Some x"
  shows "n = of_int \<lfloor>n\<rfloor>" "0 \<le> \<lfloor>n\<rfloor>" "nat \<lfloor>n\<rfloor> < length xs" "x = xs ! nat \<lfloor>n\<rfloor>"
  using assms by (auto simp: js_at_def isInteger_def js_nth_def split: if_splits)

lemma assignCell_fresh:
  assumes "allocBoard h b = (h1, a)" "0 \<le> r" "nat r < length b" "0 \<le> c" "nat c < length (b ! nat r)"
  shows "\<exists>h2. assignCell h1 a (of_int r) (of_int c) v = Returns h2 \<and> prefix h h2 \<and>
           boardAt h2 a = Some (b[nat r := (b ! nat r)[nat c := v]])"
proof -
  let ?n = "length h"
  let ?q = "?n + nat r"
  let ?row = "(b ! nat r)[nat c := v]"
  let ?h2 = "h1[?q := Cells ?row]"
  note fresh = boardAt_allocBoard [OF assms(1)]
  have idx: "js_nth [?n ..< ?n + length b] r = Some ?q"
    using assms(2,3) by (simp add: js_nth_def)
  have run: "assignCell h1 a (of_int r) (of_int c) v = Returns ?h2"
    using assms(2-5) by (simp add: assignCell_def fresh(4) idx fresh(5))
  from fresh(2) obtain k where k: "h1 = h @ k" by (auto simp: prefix_def)
  have pre: "prefix h ?h2"
    by (simp add: k list_update_append)
  have len: "length ?h2 = ?n + length b + 1" by (simp add: fresh(6))
  have top: "lookup ?h2 a = Some (Rows [?n ..< ?n + length b])"
    using fresh(4) assms(3) by (auto simp: lookup_def fresh(3) split: if_splits)
  have rows: "rowAt ?h2 (?n + i) = Some (b[nat r := ?row] ! i)" if "i < length b" for i
  proof (cases "i = nat r")
    case True
    with that show ?thesis by (simp add: rowAt_def lookup_def fresh(6))
  next
    case False
    with that fresh(5) [OF that] show ?thesis
      by (auto simp: rowAt_def lookup_def split: if_splits)
  qed
  have "those (map (rowAt ?h2) [?n ..< ?n + length b]) = Some (b[nat r := ?row])"
    by (simp add: those_map_Some rows)
  with top have "boardAt ?h2 a = Some (b[nat r := ?row])" by (simp add: boardAt_def)
  with run pre show ?thesis by blast
qed

lemma one_cell_changedI:
  assumes "r < length b" "c < length (b ! r)" "v \<noteq> b ! r ! c"
  shows "one_cell_changed b (b[r := (b ! r)[c := v]])"
proof -
  let ?b' = "b[r := (b ! r)[c := v]]"
  from assms have "?b' ! r ! c = v" by simp
  with assms have "?b' = b[r := (b ! r)[c := ?b' ! r ! c]] \<and> ?b' ! r ! c \<noteq> b ! r ! c"
    by simp
  with assms(1,2) show ?thesis unfolding one_cell_changed_def by blast
qed

lemma withPiece_update:
  assumes "0 \<le> r" "0 \<le> c"
  shows "withPiece b r c p = b[nat r := (b ! nat r)[nat c := Piece p]]"
proof (rule nth_equalityI)
  show "length (withPiece b r c p) = length (b[nat r := (b ! nat r)[nat c := Piece p]])"
    by (simp add: withPiece_def)
next
  fix i assume "i < length (withPiece b r c p)"
  then have i: "i < length b" by (simp add: withPiece_def)
  show "withPiece b r c p ! i = b[nat r := (b ! nat r)[nat c := Piece p]] ! i"
  proof (rule nth_equalityI)
    show "length (withPiece b r c p ! i) = length (b[nat r := (b ! nat r)[nat c := Piece p]] ! i)"
      using i by (cases "i = nat r") (simp_all add: withPiece_def nth_enumerate_eq)
  next
    fix j assume "j < length (withPiece b r c p ! i)"
    then have j: "j < length (b ! i)" using i by (simp add: withPiece_def nth_enumerate_eq)
    from assms have eq: "int i = r \<longleftrightarrow> i = nat r" "int j = c \<longleftrightarrow> j = nat c"
      by auto
    from i j have "withPiece b r c p ! i ! j =
        (if i = nat r \<and> j = nat c then Piece p else b ! i ! j)"
      by (simp add: withPiece_def nth_enumerate_eq eq)
    also from i j have "\<dots> = b[nat r := (b ! nat r)[nat c := Piece p]] ! i ! j"
      by (cases "i = nat r"; cases "j = nat c") simp_all
    finally show "withPiece b r c p ! i ! j = b[nat r := (b ! nat r)[nat c := Piece p]] ! i ! j" .
  qed
qed

lemma withBoard_sel [simp]:
  "board (withBoard s b) = b" "currentPlayer (withBoard s b) = currentPlayer s"
  by (simp_all add: withBoard_def)

text \<open>
  Claim C6. For a tic-tac-toe state whose board is three rows of three cells, and for a
  Connect Four state whose board is six rows of seven cells, held in a store of arrays, and
  for a move that \<open>isValidMove\<close> accepts: \<open>applyMove\<close> returns; every array that existed
  before the call is unchanged after it, so the board of the given state is the same as
  before; and the board of the returned state is the board of the given state with the
  content of exactly one cell replaced by a different one.
\<close>

theorem applyMove_frame_one_cell:
  "(boardAt h (board s) = Some b \<and> wf_tictac b \<and>
    TicTacToe_isValidMove (withBoard s b) m = Inr True \<longrightarrow>
      (\<exists>h' s' b'. TicTacToe_applyMove h s m = Returns (h', s') \<and> prefix h h' \<and>
          boardAt h' (board s) = Some b \<and> boardAt h' (board s') = Some b' \<and>
          one_cell_changed b b')) \<and>
   (boardAt g (board t) = Some d \<and> wf_connect4 d \<and> Connect4_isValidMove (withBoard t d) n \<longrightarrow>
      (\<exists>g' t' d'. Connect4_applyMove_store g t n = Returns (g', t') \<and> prefix g g' \<and>
          boardAt g' (board t) = Some d \<and> boardAt g' (board t') = Some d' \<and>
          one_cell_changed d d'))"
proof (intro conjI impI; elim conjE)
  assume b: "boardAt h (board s) = Some b" and wf: "wf_tictac b"
    and legal: "TicTacToe_isValidMove (withBoard s b) m = Inr True"
  let ?v = "symbol (currentPlayer s)"
  let ?r = "nat \<lfloor>row m\<rfloor>" and ?c = "nat \<lfloor>col m\<rfloor>"
  from legal obtain cells where cells: "js_at b (row m) = Some cells"
    and free: "js_at cells (col m) = Some '''' \<or> js_at cells (col m) = Some '' ''"
    by (auto simp: TicTacToe_isValidMove_def split: if_splits option.splits)
  note ri = js_at_Some [OF cells]
  from free obtain x where x: "js_at cells (col m) = Some x" "x = '''' \<or> x = '' ''"
    by blast
  note ci = js_at_Some [OF x(1)]
  from ri have r: "?r < length b" by simp
  from ci ri(4) have c: "?c < length (b ! ?r)" by simp
  from ci(4) ri(4) x(2) have "b ! ?r ! ?c = '''' \<or> b ! ?r ! ?c = '' ''" by simp
  then have diff: "?v \<noteq> b ! ?r ! ?c" by (cases "currentPlayer s") auto
  obtain h1 a where al: "allocBoard h b = (h1, a)" by (cases "allocBoard h b")
  from assignCell_fresh [OF al ri(2) r ci(2) c, of ?v] ri(1) ci(1) obtain h2 where
    h2: "assignCell h1 a (row m) (col m) ?v = Returns h2" "prefix h h2"
      "boardAt h2 a = Some (b[?r := (b ! ?r)[?c := ?v]])"
    by auto
  let ?s' = "s\<lparr>board := a,
     currentPlayer := (if currentPlayer s = PlayerX then PlayerO else PlayerX)\<rparr>"
  have "TicTacToe_applyMove h s m = Returns (h2, ?s')"
    by (simp add: TicTacToe_applyMove_def b al h2(1))
  moreover have "boardAt h2 (board s) = Some b" by (rule boardAt_prefix [OF b h2(2)])
  moreover have "boardAt h2 (board ?s') = Some (b[?r := (b ! ?r)[?c := ?v]])"
    using h2(3) by simp
  moreover have "one_cell_changed b (b[?r := (b ! ?r)[?c := ?v]])"
    by (rule one_cell_changedI [OF r c diff])
  ultimately show "\<exists>h' s' b'. TicTacToe_applyMove h s m = Returns (h', s') \<and> prefix h h' \<and>
          boardAt h' (board s) = Some b \<and> boardAt h' (board s') = Some b' \<and>
          one_cell_changed b b'"
    using h2(2) by blast
next
  assume d: "boardAt g (board t) = Some d" and wf: "wf_connect4 d"
    and legal: "Connect4_isValidMove (withBoard t d) n"
  let ?r = "findLowestEmptyRow d (column n)"
  let ?d' = "withPiece d ?r (column n) (player n)"
  from legal have range: "0 \<le> column n" "column n \<le> 6"
    and top: "cell d 0 (column n) = Some EmptyCell"
    by (auto simp: Connect4_isValidMove_def split: if_splits)
  from lowestEmptyFrom_spec [of d "column n" 5] top
  have low: "0 \<le> ?r" "?r \<le> 5" "cell d ?r (column n) = Some EmptyCell"
    unfolding findLowestEmptyRow_def by auto
  from wf low range have r: "nat ?r < length d" and c: "nat (column n) < length (d ! nat ?r)"
    by (auto simp: wf_connect4_def list_all_length)
  from low(3) wf_connect4_cell [OF wf low(1,2) range]
  have "Piece (player n) \<noteq> d ! nat ?r ! nat (column n)" by simp
  from one_cell_changedI [OF r c this]
  have one: "one_cell_changed d ?d'" by (simp add: withPiece_update [OF low(1) range(1)])
  obtain g1 a where al: "allocBoard g ?d' = (g1, a)" by (cases "allocBoard g ?d'")
  note fresh = boardAt_allocBoard [OF al]
  let ?t' = "t\<lparr>board := a, currentPlayer := (if player n = red then yellow else red),
     lastColumn := Some (column n)\<rparr>"
  from low(1) have "Connect4_applyMove_store g t n = Returns (g1, ?t')"
    by (simp add: Connect4_applyMove_store_def d Let_def al)
  moreover have "boardAt g1 (board t) = Some d" by (rule boardAt_prefix [OF d fresh(2)])
  moreover have "boardAt g1 (board ?t') = Some ?d'" using fresh(1) by simp
  ultimately show "\<exists>g' t' d'. Connect4_applyMove_store g t n = Returns (g', t') \<and> prefix g g' \<and>
          boardAt g' (board t) = Some d \<and> boardAt g' (board t') = Some d' \<and>
          one_cell_changed d d'"
    using fresh(2) one by blast
qed

theorem applyMove_frame_one_cell_witness:
  "(boardAt tictac_scenario_store (board tictac_scenario_state) = Some tictac_scenario_board \<and>
    wf_tictac tictac_scenario_board \<and>
    TicTacToe_isValidMove (withBoard tictac_scenario_state tictac_scenario_board)
      \<lparr>row = 0, col = 2\<rparr> = Inr True \<and>
    (\<exists>h' s' b'. TicTacToe_applyMove tictac_scenario_store tictac_scenario_state \<lparr>row = 0, col = 2\<rparr>
          = Returns (h', s') \<and> prefix tictac_scenario_store h' \<and>
        boardAt h' (board tictac_scenario_state) = Some tictac_scenario_board \<and>
        boardAt h' (board s') = Some b' \<and> one_cell_changed tictac_scenario_board b')) \<and>
   (boardAt connect4_example_store (board connect4_store_state) = Some connect4_example_board \<and>
    wf_connect4 connect4_example_board \<and>
    Connect4_isValidMove (withBoard connect4_store_state connect4_example_board) \<lparr>column = 2, player = red\<rparr> \<and>
    (\<exists>g' t' d'. Connect4_applyMove_store connect4_example_store connect4_store_state
            \<lparr>column = 2, player = red\<rparr> = Returns (g', t') \<and>
        prefix connect4_example_store g' \<and>
        boardAt g' (board connect4_store_state) = Some connect4_example_board \<and>
        boardAt g' (board t') = Some d' \<and> one_cell_changed connect4_example_board d'))"
proof -
  have t1: "boardAt tictac_scenario_store (board tictac_scenario_state) = Some tictac_scenario_board"
    unfolding tictac_scenario_store_def tictac_scenario_state_def
    by (simp add: boardAt_allocBoard(1) [OF prod.collapse [symmetric]])
  have t2: "wf_tictac tictac_scenario_board"
    by (simp add: tictac_scenario_board_def wf_tictac_def)
  have t3: "TicTacToe_isValidMove (withBoard tictac_scenario_state tictac_scenario_board)
      \<lparr>row = 0, col = 2\<rparr> = Inr True"
    by (simp add: TicTacToe_isValidMove_def tictac_scenario_board_def js_at_def isInteger_def
        js_nth_def)
  have c1: "boardAt connect4_example_store (board connect4_store_state) = Some connect4_example_board"
    unfolding connect4_example_store_def connect4_store_state_def
    by (simp add: boardAt_allocBoard(1) [OF prod.collapse [symmetric]])
  have c2: "wf_connect4 connect4_example_board"
    using connect4_example_wf by (simp add: connect4_example_state_def)
  have c3: "Connect4_isValidMove (withBoard connect4_store_state connect4_example_board)
      \<lparr>column = 2, player = red\<rparr>"
    by (simp add: Connect4_isValidMove_def connect4_example_board_def cell_def js_nth_def)
  note th = applyMove_frame_one_cell
    [of tictac_scenario_store tictac_scenario_state tictac_scenario_board "\<lparr>row = 0, col = 2\<rparr>"
        connect4_example_store connect4_store_state connect4_example_board
        "\<lparr>column = 2, player = red\<rparr>"]
  from th t1 t2 t3 c1 c2 c3 show ?thesis by blast
qed

section \<open>Properties of the validation results\<close>

lemma npv_createSuccess: "never_partially_valid (createSuccess ws)"
  by (simp add: never_partially_valid_def createSuccess_def)

lemma npv_createError: "never_partially_valid (createError e)"
  by (simp add: never_partially_valid_def createError_def)

lemma npv_makeTestRequest:
  assumes "\<And>r. f = Inr r \<Longrightarrow> never_partially_valid r"
  shows "never_partially_valid (makeTestRequest f)"
  using assms by (cases f) (simp_all add: makeTestRequest_def npv_createError)

lemma npv_validationOf: "never_partially_valid (validationOf es ws)"
  by (simp add: validationOf_def never_partially_valid_def createSuccess_def)

lemma npv_clientTest: "clientTest w c missing msg ws = Inr r \<Longrightarrow> never_partially_valid r"
  by (auto simp: clientTest_def npv_createSuccess split: if_splits option.splits)

lemma npv_Ollama_testFn: "Ollama_testFn w c = Inr r \<Longrightarrow> never_partially_valid r"
  by (auto simp: Ollama_testFn_def split: sum.splits if_splits dest: npv_clientTest)

lemma npv_providers:
  "never_partially_valid (Ollama_validateConfig w c)"
  "never_partially_valid (Ollama_testConnection w c)"
  "never_partially_valid (OpenAI_validateConfig c)"
  "never_partially_valid (OpenAI_testConnection w c)"
  "never_partially_valid (Anthropic_validateConfig c)"
  "never_partially_valid (Anthropic_testConnection w c)"
  "never_partially_valid (AzureOpenAI_validateConfig c)"
  "never_partially_valid (AzureOpenAI_testConnection w c)"
  "never_partially_valid (Bedrock_validateConfig c)"
  "never_partially_valid (Bedrock_testConnection w c)"
  by (simp_all add: Ollama_validateConfig_def Ollama_testConnection_def
      OpenAI_validateConfig_def OpenAI_testConnection_def
      Anthropic_validateConfig_def Anthropic_testConnection_def
      AzureOpenAI_validateConfig_def AzureOpenAI_testConnection_def
      Bedrock_validateConfig_def Bedrock_testConnection_def
      npv_validationOf npv_createError npv_makeTestRequest npv_clientTest npv_Ollama_testFn)

lemma getProvider_sound:
  assumes "getProvider w google name = Inr p" "name = ''google'' \<longrightarrow> keeps_invariant google"
  shows "validateConfig p c = Inr v \<Longrightarrow> never_partially_valid v"
    and "testConnection p c = Inr t \<Longrightarrow> never_partially_valid t"
  using assms
  by (auto simp: getProvider_def providers_def npv_providers keeps_invariant_def
      split: if_splits)

lemma npv_LLMFactory:
  assumes "provider c = ''google'' \<longrightarrow> keeps_invariant google"
  shows "never_partially_valid (LLMFactory_validateConfig w google c)"
    and "never_partially_valid (LLMFactory_validateAndTest w google c)"
proof -
  have caught: "never_partially_valid \<lparr>valid = False, errors = [m], warnings = None\<rparr>" for m
    by (simp add: never_partially_valid_def)
  have merged: "never_partially_valid \<lparr>valid = valid t, errors = errors t, warnings = ws\<rparr>"
    if "never_partially_valid t" for t ws
    using that by (simp add: never_partially_valid_def)
  show "never_partially_valid (LLMFactory_validateConfig w google c)"
  proof (cases "getProvider w google (provider c)")
    case (Inl e)
    then show ?thesis by (simp add: LLMFactory_validateConfig_def Let_def caught)
  next
    case (Inr p)
    from getProvider_sound [OF Inr assms]
    have "\<And>v. validateConfig p c = Inr v \<Longrightarrow> never_partially_valid v"
      by blast
    with Inr show ?thesis
      by (auto simp: LLMFactory_validateConfig_def Let_def caught split: sum.splits)
  qed
  show "never_partially_valid (LLMFactory_validateAndTest w google c)"
  proof (cases "getProvider w google (provider c)")
    case (Inl e)
    then show ?thesis by (simp add: LLMFactory_validateAndTest_def Let_def caught)
  next
    case (Inr p)
    from getProvider_sound [OF Inr assms]
    have "\<And>v. validateConfig p c = Inr v \<Longrightarrow> never_partially_valid v"
      and "\<And>t. testConnection p c = Inr t \<Longrightarrow> never_partially_valid t"
      by blast+
    with Inr show ?thesis
      by (auto simp: LLMFactory_validateAndTest_def Let_def caught merged split: sum.splits)
  qed
qed

text \<open>
  Claim C9. Every \<open>ValidationResult\<close> that the helpers of \<open>BaseProvider\<close>, the methods
  \<open>validateConfig\<close> and \<open>testConnection\<close> of the providers, and
  \<open>LLMFactory.validateConfig\<close> and \<open>LLMFactory.validateAndTest\<close> produce has a non-empty
  list of errors when it is not valid. For a configuration that names the provider whose
  class is a parameter here, this holds when the results of that provider do.
\<close>

theorem ValidationResult_never_partially_valid:
  "never_partially_valid (createSuccess ws) \<and>
   never_partially_valid (createError e) \<and>
   ((\<forall>r. f = Inr r \<longrightarrow> never_partially_valid r) \<longrightarrow> never_partially_valid (makeTestRequest f)) \<and>
   never_partially_valid (Ollama_validateConfig w c) \<and>
   never_partially_valid (Ollama_testConnection w c) \<and>
   never_partially_valid (OpenAI_validateConfig c) \<and>
   never_partially_valid (OpenAI_testConnection w c) \<and>
   never_partially_valid (Anthropic_validateConfig c) \<and>
   never_partially_valid (Anthropic_testConnection w c) \<and>
   never_partially_valid (AzureOpenAI_validateConfig c) \<and>
   never_partially_valid (AzureOpenAI_testConnection w c) \<and>
   never_partially_valid (Bedrock_validateConfig c) \<and>
   never_partially_valid (Bedrock_testConnection w c) \<and>
   ((provider c = ''google'' \<longrightarrow> keeps_invariant google) \<longrightarrow>
      never_partially_valid (LLMFactory_validateConfig w google c) \<and>
      never_partially_valid (LLMFactory_validateAndTest w google c))"
  using npv_createSuccess npv_createError npv_makeTestRequest [of f] npv_providers
    npv_LLMFactory [of c google w]
  by blast

theorem ValidationResult_never_partially_valid_witness:
  "keeps_invariant example_google \<and>
   never_partially_valid (makeTestRequest (Inl OtherValue)) \<and>
   \<not> valid (makeTestRequest (Inl OtherValue)) \<and>
   never_partially_valid (LLMFactory_validateConfig example_world example_google
      (default_config\<lparr>provider := ''google''\<rparr>)) \<and>
   \<not> valid (LLMFactory_validateConfig example_world example_google
      (default_config\<lparr>provider := ''google''\<rparr>)) \<and>
   never_partially_valid (LLMFactory_validateAndTest example_world example_google default_config) \<and>
   \<not> valid (LLMFactory_validateAndTest example_world example_google default_config)"
proof -
  let ?g = "default_config\<lparr>provider := ''google''\<rparr>"
  have g: "keeps_invariant example_google"
    by (auto simp: keeps_invariant_def example_google_def npv_validationOf
        intro: npv_makeTestRequest npv_clientTest)
  have f: "\<forall>r. (Inl OtherValue :: rejection + ValidationResult) = Inr r \<longrightarrow> never_partially_valid r"
    by simp
  note th1 = ValidationResult_never_partially_valid
    [where f = "Inl OtherValue" and w = example_world and c = ?g and google = example_google]
  note th2 = ValidationResult_never_partially_valid
    [where f = "Inl OtherValue" and w = example_world and c = default_config
       and google = example_google]
  have p: "provider default_config \<noteq> ''google''" by (simp add: default_config_def)
  from th1 f have a: "never_partially_valid (makeTestRequest (Inl OtherValue))" by blast
  from th1 g have b: "never_partially_valid (LLMFactory_validateConfig example_world example_google ?g)"
    by blast
  from th2 p have c: "never_partially_valid (LLMFactory_validateAndTest example_world example_google default_config)"
    by blast
  have d: "\<not> valid (makeTestRequest (Inl OtherValue))"
    by (simp add: makeTestRequest_def createError_def)
  have e: "\<not> valid (LLMFactory_validateConfig example_world example_google ?g)"
    by (simp add: LLMFactory_validateConfig_def getProvider_def providers_def example_google_def
        default_config_def validationOf_def pushed_def validateRequired_def truthy_def)
  have h: "\<not> valid (LLMFactory_validateAndTest example_world example_google default_config)"
    by (simp add: LLMFactory_validateAndTest_def getProvider_def providers_def
        default_config_def Ollama_validateConfig_def validationOf_def pushed_def
        validateRequired_def validateUrl_def truthy_def js_trim_def example_world_def)
  from g a b c d e h show ?thesis by blast
qed

section \<open>Properties of the cache key\<close>

lemma hex_value_digit: "d < 16 \<Longrightarrow> hex_value (hex_digit d) = d"
proof -
  have "\<forall>d \<in> set [0..<16]. hex_value (hex_digit d) = d"
    by code_simp
  then show "d < 16 \<Longrightarrow> hex_value (hex_digit d) = d" by simp
qed

lemma char_eq_codeI: "(of_char c :: nat) = of_char d \<Longrightarrow> c = d"
  by simp

lemma unquoteHead_quoteChar: "unquoteHead (quoteChar c @ rest) = Some (c, rest)"
proof -
  let ?n = "of_char c :: nat"
  consider "?n = 8" | "?n = 9" | "?n = 10" | "?n = 12" | "?n = 13" | "?n = 34" | "?n = 92"
    | "?n < 32" "?n \<notin> {8, 9, 10, 12, 13}" | "?n \<ge> 32" "?n \<noteq> 34" "?n \<noteq> 92"
    by fastforce
  then show ?thesis
  proof cases
    case 1
    then have "c = CHR 0x08" by (intro char_eq_codeI) simp
    then show ?thesis by (simp add: quoteChar_def)
  next
    case 2
    then have "c = CHR 0x09" by (intro char_eq_codeI) simp
    then show ?thesis by (simp add: quoteChar_def)
  next
    case 3
    then have "c = CHR 0x0A" by (intro char_eq_codeI) simp
    then show ?thesis by (simp add: quoteChar_def)
  next
    case 4
    then have "c = CHR 0x0C" by (intro char_eq_codeI) simp
    then show ?thesis by (simp add: quoteChar_def)
  next
    case 5
    then have "c = CHR 0x0D" by (intro char_eq_codeI) simp
    then show ?thesis by (simp add: quoteChar_def)
  next
    case 6
    then have "c = CHR 0x22" by (intro char_eq_codeI) simp
    then show ?thesis by (simp add: quoteChar_def)
  next
    case 7
    then have "c = CHR 0x5C" by (intro char_eq_codeI) simp
    then show ?thesis by (simp add: quoteChar_def)
  next
    case 8
    have "16 * (?n div 16) + ?n mod 16 = ?n" by simp
    moreover from 8 have "?n div 16 < 16" "?n mod 16 < 16" by simp_all
    ultimately have "char_of (16 * hex_value (hex_digit (?n div 16)) +
        hex_value (hex_digit (?n mod 16))) = c"
      by (simp add: hex_value_digit)
    with 8 show ?thesis by (simp add: quoteChar_def Let_def)
  next
    case 9
    then have "c \<noteq> CHR 0x5C" by auto
    with 9 show ?thesis by (simp add: quoteChar_def Let_def)
  qed
qed

lemma quoteChar_prefix_code:
  assumes "quoteChar c @ x = quoteChar c' @ y"
  shows "c = c' \<and> x = y"
proof -
  from assms have "unquoteHead (quoteChar c @ x) = unquoteHead (quoteChar c' @ y)" by simp
  then show ?thesis by (simp add: unquoteHead_quoteChar)
qed

lemma quoteChar_not_quote: "quoteChar c @ x \<noteq> CHR 0x22 # y"
proof
  assume eq: "quoteChar c @ x = CHR 0x22 # y"
  then have "unquoteHead (quoteChar c @ x) = unquoteHead (CHR 0x22 # y)" by simp
  then have "c = CHR 0x22" by (simp add: unquoteHead_quoteChar)
  with eq show False by (simp add: quoteChar_def)
qed

lemma quoted_body_inj:
  "concat (map quoteChar s) @ CHR 0x22 # x = concat (map quoteChar s') @ CHR 0x22 # y
   \<Longrightarrow> s = s' \<and> x = y"
proof (induction s arbitrary: s')
  case Nil
  then show ?case
  proof (cases s')
    case (Cons c' cs')
    with Nil have "quoteChar c' @ (concat (map quoteChar cs') @ CHR 0x22 # y) = CHR 0x22 # x"
      by simp
    with quoteChar_not_quote show ?thesis by blast
  qed simp
next
  case (Cons c cs)
  show ?case
  proof (cases s')
    case Nil
    with Cons.prems have "quoteChar c @ (concat (map quoteChar cs) @ CHR 0x22 # x) = CHR 0x22 # y"
      by simp
    with quoteChar_not_quote show ?thesis by blast
  next
    case (Cons c' cs')
    with Cons.prems have "quoteChar c @ (concat (map quoteChar cs) @ CHR 0x22 # x) =
        quoteChar c' @ (concat (map quoteChar cs') @ CHR 0x22 # y)"
      by simp
    from quoteChar_prefix_code [OF this]
    have "c = c'" "concat (map quoteChar cs) @ CHR 0x22 # x = concat (map quoteChar cs') @ CHR 0x22 # y"
      by simp_all
    with Cons.IH [of cs'] Cons show ?thesis by simp
  qed
qed

lemma quoteJSONString_prefix_code:
  assumes "quoteJSONString s @ x = quoteJSONString s' @ y"
  shows "s = s' \<and> x = y"
  using assms quoted_body_inj [of s x s' y] by (simp add: quoteJSONString_def)

text \<open>The key begins with the provider and the model, each between quotes.\<close>

lemma createCacheKey_head:
  "\<exists>rest. createCacheKey num c t =
      ''{'' @ quoteJSONString ''provider'' @ '':'' @ quoteJSONString (provider c) @
      '','' @ quoteJSONString ''model'' @ '':'' @ quoteJSONString (model c) @ rest"
  by (simp add: createCacheKey_def stringifyObject_def List.map_filter_simps stringifyValue_def
      del: append.simps)

lemma createCacheKey_model_inj:
  assumes "createCacheKey num c1 t1 = createCacheKey num c2 t2"
  shows "model c1 = model c2"
proof -
  let ?p = "''{'' @ quoteJSONString ''provider'' @ '':''"
  let ?m = "'','' @ quoteJSONString ''model'' @ '':''"
  from createCacheKey_head [of num c1 t1] obtain r1 where
    k1: "createCacheKey num c1 t1 =
      ?p @ quoteJSONString (provider c1) @ ?m @ quoteJSONString (model c1) @ r1"
    by auto
  from createCacheKey_head [of num c2 t2] obtain r2 where
    k2: "createCacheKey num c2 t2 =
      ?p @ quoteJSONString (provider c2) @ ?m @ quoteJSONString (model c2) @ r2"
    by auto
  from assms have "quoteJSONString (provider c1) @ (?m @ quoteJSONString (model c1) @ r1) =
      quoteJSONString (provider c2) @ (?m @ quoteJSONString (model c2) @ r2)"
    unfolding k1 k2 by simp
  from quoteJSONString_prefix_code [OF this]
  have "quoteJSONString (model c1) @ r1 = quoteJSONString (model c2) @ r2" by simp
  from quoteJSONString_prefix_code [OF this] show ?thesis by simp
qed

lemma createCacheKey_flags: "createCacheKey num (secretsAsFlags c) t = createCacheKey num c t"
  by (simp add: createCacheKey_def secretsAsFlags_def truthy_def)

lemma same_except_secrets_fields:
  assumes "same_except_secrets c1 c2"
  shows "provider c1 = provider c2" "model c1 = model c2" "url c1 = url c2"
    "azureOpenAIApiInstanceName c1 = azureOpenAIApiInstanceName c2"
    "azureOpenAIApiDeploymentName c1 = azureOpenAIApiDeploymentName c2"
    "azureOpenAIApiVersion c1 = azureOpenAIApiVersion c2"
    "region c1 = region c2" "accessKeyId c1 = accessKeyId c2"
proof -
  let ?f = "\<lambda>c. c\<lparr>apiKey := None, secretAccessKey := None\<rparr>"
  from assms have eq: "?f c1 = ?f c2" by (simp add: same_except_secrets_def)
  have "provider (?f c1) = provider (?f c2)" "model (?f c1) = model (?f c2)"
    "url (?f c1) = url (?f c2)"
    "azureOpenAIApiInstanceName (?f c1) = azureOpenAIApiInstanceName (?f c2)"
    "azureOpenAIApiDeploymentName (?f c1) = azureOpenAIApiDeploymentName (?f c2)"
    "azureOpenAIApiVersion (?f c1) = azureOpenAIApiVersion (?f c2)"
    "region (?f c1) = region (?f c2)" "accessKeyId (?f c1) = accessKeyId (?f c2)"
    by (simp_all only: eq)
  then show "provider c1 = provider c2" "model c1 = model c2" "url c1 = url c2"
    "azureOpenAIApiInstanceName c1 = azureOpenAIApiInstanceName c2"
    "azureOpenAIApiDeploymentName c1 = azureOpenAIApiDeploymentName c2"
    "azureOpenAIApiVersion c1 = azureOpenAIApiVersion c2"
    "region c1 = region c2" "accessKeyId c1 = accessKeyId c2"
    by simp_all
qed

text \<open>
  Claim C5. For all configurations and every temperature: two configurations that are
  identical except in the values of \<open>apiKey\<close> and \<open>secretAccessKey\<close>, an API key being
  present in both or in neither, have the same cache key; two configurations with
  different model identifiers have different cache keys; and the cache key of a
  configuration is the cache key of the configuration in which every secret is replaced by
  a mark of its presence, so that the key holds a flag \<open>present\<close> or \<open>missing\<close> and
  nothing of the value of a secret.
\<close>

theorem createCacheKey_fingerprint:
  "(same_except_secrets c1 c2 \<and> truthy (apiKey c1) = truthy (apiKey c2) \<longrightarrow>
      createCacheKey num c1 t = createCacheKey num c2 t) \<and>
   (model c1 \<noteq> model c2 \<longrightarrow> createCacheKey num c1 t \<noteq> createCacheKey num c2 t) \<and>
   createCacheKey num c1 t = createCacheKey num (secretsAsFlags c1) t"
proof (intro conjI impI)
  assume a: "same_except_secrets c1 c2 \<and> truthy (apiKey c1) = truthy (apiKey c2)"
  then show "createCacheKey num c1 t = createCacheKey num c2 t"
    by (simp add: createCacheKey_def same_except_secrets_fields [of c1 c2])
next
  assume "model c1 \<noteq> model c2"
  with createCacheKey_model_inj [of num c1 t c2 t]
  show "createCacheKey num c1 t \<noteq> createCacheKey num c2 t" by blast
next
  show "createCacheKey num c1 t = createCacheKey num (secretsAsFlags c1) t"
    by (simp add: createCacheKey_flags)
qed

theorem createCacheKey_fingerprint_witness:
  "same_except_secrets openai_config (openai_config\<lparr>apiKey := Some ''sk-second''\<rparr>) \<and>
   truthy (apiKey openai_config) = truthy (apiKey (openai_config\<lparr>apiKey := Some ''sk-second''\<rparr>)) \<and>
   createCacheKey (\<lambda>u. ''0.3'') openai_config () =
     createCacheKey (\<lambda>u. ''0.3'') (openai_config\<lparr>apiKey := Some ''sk-second''\<rparr>) () \<and>
   model openai_config \<noteq> model (openai_config\<lparr>model := ''gpt-4o''\<rparr>) \<and>
   createCacheKey (\<lambda>u. ''0.3'') openai_config () \<noteq>
     createCacheKey (\<lambda>u. ''0.3'') (openai_config\<lparr>model := ''gpt-4o''\<rparr>) ()"
proof -
  let ?num = "\<lambda>u::unit. ''0.3''" 
  let ?c2 = "openai_config\<lparr>apiKey := Some ''sk-second''\<rparr>"
  let ?c3 = "openai_config\<lparr>model := ''gpt-4o''\<rparr>"
  have s: "same_except_secrets openai_config ?c2"
    by (simp add: same_except_secrets_def)
  have p: "truthy (apiKey openai_config) = truthy (apiKey ?c2)"
    by (simp add: openai_config_def truthy_def)
  have m: "model openai_config \<noteq> model ?c3"
    by (simp add: openai_config_def)
  from createCacheKey_fingerprint [of openai_config ?c2 ?num "()"] s p
  have a: "createCacheKey ?num openai_config () = createCacheKey ?num ?c2 ()" by blast
  from createCacheKey_fingerprint [of openai_config ?c3 ?num "()"] m
  have b: "createCacheKey ?num openai_config () \<noteq> createCacheKey ?num ?c3 ()" by blast
  from s p a m b show ?thesis by blast
qed

section \<open>Properties of the move generator\<close>

lemma generateMove_invalid_config:
  assumes "\<not> fst (validateProviderConfig sv (providerConfig sv))"
  shows "generateMove sv game gameState maxRetries previousFailures attempts =
    (Inl \<lparr>message = ''AI configuration is invalid: '' @
              join '', '' (snd (validateProviderConfig sv (providerConfig sv))),
          llmResponse = None, errorType = None, errorGameType = None\<rparr>, attempts)"
  using assms by (subst generateMove.simps) (simp add: Let_def)

lemma generateMove_no_backend:
  assumes "fst (validateProviderConfig sv (providerConfig sv))"
    and "getCurrentLLM sv (providerConfig sv) = Inl e"
  shows "generateMove sv game gameState maxRetries previousFailures attempts =
    (Inl (thrownError e), attempts)"
  using assms by (subst generateMove.simps) (simp add: Let_def)

text \<open>One attempt, with a valid configuration and a backend.\<close>

lemma generateMove_prompt_threw:
  assumes "fst (validateProviderConfig sv (providerConfig sv))"
    and "getCurrentLLM sv (providerConfig sv) = Inr llm"
    and "formatPrompt game gameState (buildFeedbackSection previousFailures) = Inl e"
  shows "generateMove sv game gameState maxRetries previousFailures attempts =
    (Inl (caught (llmGameType game) e), attempts)"
  using assms by (subst generateMove.simps) (simp add: Let_def)

lemma generateMove_threw:
  assumes "fst (validateProviderConfig sv (providerConfig sv))"
    and "getCurrentLLM sv (providerConfig sv) = Inr llm"
    and "formatPrompt game gameState (buildFeedbackSection previousFailures) = Inr p"
    and "llm (length attempts) p = Inl e"
  shows "generateMove sv game gameState maxRetries previousFailures attempts =
    (Inl (caught (llmGameType game) e), attempts @ [\<lparr>prompt = p, outcome = Threw e\<rparr>])"
  using assms by (subst generateMove.simps) (simp add: Let_def)

lemma generateMove_unparsable:
  assumes "fst (validateProviderConfig sv (providerConfig sv))"
    and "getCurrentLLM sv (providerConfig sv) = Inr llm"
    and "formatPrompt game gameState (buildFeedbackSection previousFailures) = Inr p"
    and "llm (length attempts) p = Inr responseText"
    and "parseResponse game responseText = Inl parseError"
  shows "generateMove sv game gameState maxRetries previousFailures attempts =
    (Inl \<lparr>message = ''Failed to parse LLM response: '' @ parseError,
          llmResponse = Some responseText, errorType = Some invalid_json,
          errorGameType = Some (llmGameType game)\<rparr>,
     attempts @ [\<lparr>prompt = p, outcome = Unparsable responseText parseError\<rparr>])"
  using assms by (subst generateMove.simps) (simp add: Let_def)

lemma generateMove_check_threw:
  assumes "fst (validateProviderConfig sv (providerConfig sv))"
    and "getCurrentLLM sv (providerConfig sv) = Inr llm"
    and "formatPrompt game gameState (buildFeedbackSection previousFailures) = Inr p"
    and "llm (length attempts) p = Inr responseText"
    and "parseResponse game responseText = Inr (m, why)"
    and "isValidMove game gameState m = Inl e"
  shows "generateMove sv game gameState maxRetries previousFailures attempts =
    (Inl (caught (llmGameType game) e),
     attempts @ [\<lparr>prompt = p, outcome = CheckThrew responseText m e\<rparr>])"
  using assms by (subst generateMove.simps) (simp add: Let_def)

lemma generateMove_legal:
  assumes "fst (validateProviderConfig sv (providerConfig sv))"
    and "getCurrentLLM sv (providerConfig sv) = Inr llm"
    and "formatPrompt game gameState (buildFeedbackSection previousFailures) = Inr p"
    and "llm (length attempts) p = Inr responseText"
    and "parseResponse game responseText = Inr (m, why)"
    and "isValidMove game gameState m = Inr True"
  shows "generateMove sv game gameState maxRetries previousFailures attempts =
    (Inr \<lparr>move = \<lparr>data = m, moveReasoning = why\<rparr>, reasoning = why\<rparr>,
     attempts @ [\<lparr>prompt = p, outcome = LegalMove responseText m\<rparr>])"
  using assms by (subst generateMove.simps) (simp add: Let_def)

lemma generateMove_message_threw:
  assumes "fst (validateProviderConfig sv (providerConfig sv))"
    and "getCurrentLLM sv (providerConfig sv) = Inr llm"
    and "formatPrompt game gameState (buildFeedbackSection previousFailures) = Inr p"
    and "llm (length attempts) p = Inr responseText"
    and "parseResponse game responseText = Inr (m, why)"
    and "isValidMove game gameState m = Inr False"
    and "getInvalidMoveMessage game gameState m = Inl e"
  shows "generateMove sv game gameState maxRetries previousFailures attempts =
    (Inl (caught (llmGameType game) e),
     attempts @ [\<lparr>prompt = p, outcome = CheckThrew responseText m e\<rparr>])"
  using assms by (subst generateMove.simps) (simp add: Let_def)

lemma generateMove_illegal_last:
  assumes "fst (validateProviderConfig sv (providerConfig sv))"
    and "getCurrentLLM sv (providerConfig sv) = Inr llm"
    and "formatPrompt game gameState (buildFeedbackSection previousFailures) = Inr p"
    and "llm (length attempts) p = Inr responseText"
    and "parseResponse game responseText = Inr (m, why)"
    and "isValidMove game gameState m = Inr False"
    and "getInvalidMoveMessage game gameState m = Inr failureMessage"
    and "\<not> maxRetries > 0"
  shows "generateMove sv game gameState maxRetries previousFailures attempts =
    (Inl \<lparr>message = ''Invalid move after 3 attempts: '' @ failureMessage,
          llmResponse = Some responseText, errorType = Some invalid_move,
          errorGameType = Some (llmGameType game)\<rparr>,
     attempts @ [\<lparr>prompt = p, outcome = IllegalMove responseText m\<rparr>])"
  using assms by (subst generateMove.simps) (simp add: Let_def)

lemma generateMove_illegal_retry:
  assumes "fst (validateProviderConfig sv (providerConfig sv))"
    and "getCurrentLLM sv (providerConfig sv) = Inr llm"
    and "formatPrompt game gameState (buildFeedbackSection previousFailures) = Inr p"
    and "llm (length attempts) p = Inr responseText"
    and "parseResponse game responseText = Inr (m, why)"
    and "isValidMove game gameState m = Inr False"
    and "getInvalidMoveMessage game gameState m = Inr failureMessage"
    and "maxRetries > 0"
  shows "generateMove sv game gameState maxRetries previousFailures attempts =
    generateMove sv game gameState (maxRetries - 1) (previousFailures @ [failureMessage])
      (attempts @ [\<lparr>prompt = p, outcome = IllegalMove responseText m\<rparr>])"
  using assms by (subst generateMove.simps) (simp add: Let_def)

text \<open>
  A call that is not retried: it makes no attempt and the prompt threw, or it makes one
  attempt, which decides the result.
\<close>

lemma generateMove_once:
  assumes v: "fst (validateProviderConfig sv (providerConfig sv))"
    and l: "getCurrentLLM sv (providerConfig sv) = Inr llm"
    and run: "generateMove sv game gameState maxRetries previousFailures attempts = (res, history)"
  shows "(\<exists>e. formatPrompt game gameState (buildFeedbackSection previousFailures) = Inl e \<and>
              res = Inl (caught (llmGameType game) e) \<and> history = attempts) \<or>
         (\<exists>a. history = attempts @ [a] \<and> \<not> legalityFailure a \<and> decides game gameState (outcome a) res) \<or>
         (\<exists>a. history = attempts @ [a] \<and> legalityFailure a \<and> \<not> maxRetries > 0 \<and>
              decides game gameState (outcome a) res) \<or>
         (\<exists>a failureMessage. legalityFailure a \<and> maxRetries > 0 \<and>
              generateMove sv game gameState (maxRetries - 1)
                (previousFailures @ [failureMessage]) (attempts @ [a]) = (res, history))"
proof (cases "formatPrompt game gameState (buildFeedbackSection previousFailures)")
  case (Inl e)
  from run have "res = Inl (caught (llmGameType game) e)" and "history = attempts"
    unfolding generateMove_prompt_threw [OF v l Inl] by auto
  with Inl show ?thesis by blast
next
  case p: (Inr p)
  show ?thesis
  proof (cases "llm (length attempts) p")
    case (Inl e)
    from run have "history = attempts @ [\<lparr>prompt = p, outcome = Threw e\<rparr>]"
      and "res = Inl (caught (llmGameType game) e)"
      unfolding generateMove_threw [OF v l p Inl] by auto
    then show ?thesis by (simp add: legalityFailure_def decides_def)
  next
    case t: (Inr responseText)
    show ?thesis
    proof (cases "parseResponse game responseText")
      case (Inl parseError)
      from run have "history = attempts @ [\<lparr>prompt = p, outcome = Unparsable responseText parseError\<rparr>]"
        and "res = Inl \<lparr>message = ''Failed to parse LLM response: '' @ parseError,
               llmResponse = Some responseText, errorType = Some invalid_json,
               errorGameType = Some (llmGameType game)\<rparr>"
        unfolding generateMove_unparsable [OF v l p t Inl] by auto
      then show ?thesis by (simp add: legalityFailure_def decides_def)
    next
      case parsed: (Inr mw)
      obtain m why where mw: "mw = (m, why)" by (cases mw)
      note parsed = parsed [unfolded mw]
      show ?thesis
      proof (cases "isValidMove game gameState m")
        case (Inl e)
        from run have "history = attempts @ [\<lparr>prompt = p, outcome = CheckThrew responseText m e\<rparr>]"
          and "res = Inl (caught (llmGameType game) e)"
          unfolding generateMove_check_threw [OF v l p t parsed Inl] by auto
        then show ?thesis by (simp add: legalityFailure_def decides_def)
      next
        case (Inr ok)
        show ?thesis
        proof (cases ok)
          case True
          with Inr have ok: "isValidMove game gameState m = Inr True" by simp
          from run have "history = attempts @ [\<lparr>prompt = p, outcome = LegalMove responseText m\<rparr>]"
            and "res = Inr \<lparr>move = \<lparr>data = m, moveReasoning = why\<rparr>, reasoning = why\<rparr>"
            unfolding generateMove_legal [OF v l p t parsed ok] by auto
          then show ?thesis by (simp add: legalityFailure_def decides_def)
        next
          case False
          with Inr have no: "isValidMove game gameState m = Inr False" by simp
          show ?thesis
          proof (cases "getInvalidMoveMessage game gameState m")
            case (Inl e)
            from run have "history = attempts @ [\<lparr>prompt = p, outcome = CheckThrew responseText m e\<rparr>]"
              and "res = Inl (caught (llmGameType game) e)"
              unfolding generateMove_message_threw [OF v l p t parsed no Inl] by auto
            then show ?thesis by (simp add: legalityFailure_def decides_def)
          next
            case msg: (Inr failureMessage)
            let ?a = "\<lparr>prompt = p, outcome = IllegalMove responseText m\<rparr>"
            have a: "legalityFailure ?a" by (simp add: legalityFailure_def)
            show ?thesis
            proof (cases "maxRetries > 0")
              case True
              from run have "generateMove sv game gameState (maxRetries - 1)
                  (previousFailures @ [failureMessage]) (attempts @ [?a]) = (res, history)"
                unfolding generateMove_illegal_retry [OF v l p t parsed no msg True] .
              with a True show ?thesis by blast
            next
              case False
              from run have "history = attempts @ [?a]"
                and "res = Inl \<lparr>message = ''Invalid move after 3 attempts: '' @ failureMessage,
                   llmResponse = Some responseText, errorType = Some invalid_move,
                   errorGameType = Some (llmGameType game)\<rparr>"
                unfolding generateMove_illegal_last [OF v l p t parsed no msg False] by auto
              moreover from this(2) msg have "decides game gameState (outcome ?a) res"
                by (simp add: decides_def)
              ultimately show ?thesis using a False by blast
            qed
          qed
        qed
      qed
    qed
  qed
qed

text \<open>
  The shape of every run with a valid configuration and a backend: every attempt but
  the last is a legality failure that was retried. Either the making of a prompt threw,
  after legality failures only, or the last attempt decides the result; when the last
  attempt is a legality failure, it is attempt number \<open>maxRetries + 1\<close>.
\<close>

lemma generateMove_attempts:
  assumes "fst (validateProviderConfig sv (providerConfig sv))"
    and "getCurrentLLM sv (providerConfig sv) = Inr llm"
    and "generateMove sv game gameState maxRetries previousFailures attempts = (res, history)"
  shows "\<exists>new. history = attempts @ new \<and> length new \<le> nat maxRetries + 1 \<and>
      (\<forall>a \<in> set (butlast new). legalityFailure a) \<and>
      ((\<exists>fb e. formatPrompt game gameState fb = Inl e \<and>
           res = Inl (caught (llmGameType game) e) \<and> (\<forall>a \<in> set new. legalityFailure a)) \<or>
       (new \<noteq> [] \<and> decides game gameState (outcome (last new)) res \<and>
        (legalityFailure (last new) \<longrightarrow> length new = nat maxRetries + 1)))"
  using assms(3)
proof (induction "nat maxRetries" arbitrary: maxRetries previousFailures attempts)
  case 0
  then have n: "\<not> maxRetries > 0" by simp
  from generateMove_once [OF assms(1,2) "0.prems"] n consider
      (prompt) e where "formatPrompt game gameState (buildFeedbackSection previousFailures) = Inl e"
        "res = Inl (caught (llmGameType game) e)" "history = attempts"
    | (one) a where "history = attempts @ [a]" "decides game gameState (outcome a) res"
    by blast
  then show ?case
  proof cases
    case prompt
    then show ?thesis by (intro exI [of _ "[]"]) auto
  next
    case one
    with n show ?thesis by (intro exI [of _ "[a]"]) auto
  qed
next
  case (Suc k)
  from Suc.hyps(2) have n: "maxRetries > 0" and k: "k = nat (maxRetries - 1)" by simp_all
  from n have suc: "nat maxRetries = nat (maxRetries - 1) + 1" by simp
  from generateMove_once [OF assms(1,2) Suc.prems] n consider
      (prompt) e where "formatPrompt game gameState (buildFeedbackSection previousFailures) = Inl e"
        "res = Inl (caught (llmGameType game) e)" "history = attempts"
    | (one) a where "history = attempts @ [a]" "\<not> legalityFailure a"
        "decides game gameState (outcome a) res"
    | (retry) a failureMessage where "legalityFailure a"
        "generateMove sv game gameState (maxRetries - 1)
           (previousFailures @ [failureMessage]) (attempts @ [a]) = (res, history)"
    by blast
  then show ?case
  proof cases
    case prompt
    then show ?thesis by (intro exI [of _ "[]"]) auto
  next
    case one
    then show ?thesis by (intro exI [of _ "[a]"]) auto
  next
    case retry
    from Suc.hyps(1) [OF k retry(2)] obtain new where new: "history = (attempts @ [a]) @ new"
      "length new \<le> nat (maxRetries - 1) + 1"
      "\<forall>x \<in> set (butlast new). legalityFailure x"
      "(\<exists>fb e. formatPrompt game gameState fb = Inl e \<and>
           res = Inl (caught (llmGameType game) e) \<and> (\<forall>x \<in> set new. legalityFailure x)) \<or>
       (new \<noteq> [] \<and> decides game gameState (outcome (last new)) res \<and>
        (legalityFailure (last new) \<longrightarrow> length new = nat (maxRetries - 1) + 1))"
      by blast
    have history: "history = attempts @ (a # new)" using new(1) by simp
    have len: "length (a # new) \<le> nat maxRetries + 1" using new(2) suc by simp
    have but: "\<forall>x \<in> set (butlast (a # new)). legalityFailure x"
      using new(3) retry(1) by (cases new) auto
    from new(4) show ?thesis
    proof
      assume "\<exists>fb e. formatPrompt game gameState fb = Inl e \<and>
           res = Inl (caught (llmGameType game) e) \<and> (\<forall>x \<in> set new. legalityFailure x)"
      with retry(1) have "\<exists>fb e. formatPrompt game gameState fb = Inl e \<and>
           res = Inl (caught (llmGameType game) e) \<and> (\<forall>x \<in> set (a # new). legalityFailure x)"
        by auto
      with history len but show ?thesis by blast
    next
      assume last: "new \<noteq> [] \<and> decides game gameState (outcome (last new)) res \<and>
        (legalityFailure (last new) \<longrightarrow> length new = nat (maxRetries - 1) + 1)"
      then have "last (a # new) = last new" by simp
      with last suc have "a # new \<noteq> [] \<and> decides game gameState (outcome (last (a # new))) res \<and>
        (legalityFailure (last (a # new)) \<longrightarrow> length (a # new) = nat maxRetries + 1)"
        by simp
      with history len but show ?thesis by blast
    qed
  qed
qed

lemma generateMove_log:
  assumes "generateMove sv game gameState maxRetries previousFailures attempts = (res, history)"
  shows "history = attempts \<or>
         (fst (validateProviderConfig sv (providerConfig sv)) \<and>
          (\<exists>llm. getCurrentLLM sv (providerConfig sv) = Inr llm))"
proof (cases "fst (validateProviderConfig sv (providerConfig sv))")
  case False
  with assms show ?thesis by (simp add: generateMove_invalid_config)
next
  case True
  show ?thesis
  proof (cases "getCurrentLLM sv (providerConfig sv)")
    case (Inl e)
    with True assms show ?thesis by (simp add: generateMove_no_backend)
  next
    case (Inr llm)
    with True show ?thesis by blast
  qed
qed

text \<open>
  The number of attempts. When the making of the prompt does not throw and every attempt
  of a call is a legality failure, the call has made \<open>maxRetries + 1\<close> attempts (one when
  \<open>maxRetries\<close> is not positive), and it fails with the error of the type \<open>invalid_move\<close>
  that carries the response of the last attempt.
\<close>

lemma generateMove_attempt_count:
  assumes "generateMove sv game gameState maxRetries previousFailures [] = (res, history)"
    and "history \<noteq> []"
    and "\<forall>a \<in> set history. legalityFailure a"
    and "\<And>fb e. formatPrompt game gameState fb \<noteq> Inl e"
  shows "length history = nat maxRetries + 1 \<and>
         (\<exists>e. res = Inl e \<and> errorType e = Some invalid_move \<and>
              llmResponse e = rawResponse (last history))"
proof -
  from generateMove_log [OF assms(1)] assms(2) obtain llm where
    v: "fst (validateProviderConfig sv (providerConfig sv))"
    and l: "getCurrentLLM sv (providerConfig sv) = Inr llm"
    by auto
  from generateMove_attempts [OF v l assms(1)] assms(4)
  have d: "decides game gameState (outcome (last history)) res"
    and n: "legalityFailure (last history) \<longrightarrow> length history = nat maxRetries + 1"
    by auto
  from assms(2,3) have "legalityFailure (last history)" by simp
  then obtain responseText m where o: "outcome (last history) = IllegalMove responseText m"
    by (auto simp: legalityFailure_def split: Outcome.splits)
  with d n \<open>legalityFailure (last history)\<close> show ?thesis
    by (auto simp: decides_def rawResponse_def)
qed

lemma example_services_valid:
  "fst (validateProviderConfig (scripted_services openai_config replies)
        (providerConfig (scripted_services openai_config replies)))"
  by (simp add: validateProviderConfig_def scripted_services_def openai_config_def
      LLMFactory_validateConfig_def getProvider_def providers_def OpenAI_validateConfig_def
      validationOf_def pushed_def validateRequired_def truthy_def js_trim_def js_space_def
      createSuccess_def)

lemma example_runs:
  "run_four_illegal =
    (Inl \<lparr>message = ''Invalid move after 3 attempts: Position (1,1) is already occupied by O'',
          llmResponse = Some ''11'', errorType = Some invalid_move,
          errorGameType = Some ''TicTacToe''\<rparr>,
     snd run_four_illegal)"
  "map outcome (snd run_four_illegal) =
    [IllegalMove ''00'' \<lparr>row = 0, col = 0\<rparr>, IllegalMove ''01'' \<lparr>row = 0, col = 1\<rparr>,
     IllegalMove ''10'' \<lparr>row = 1, col = 0\<rparr>, IllegalMove ''11'' \<lparr>row = 1, col = 1\<rparr>]"
  "map outcome (snd run_two_illegal) =
    [IllegalMove ''00'' \<lparr>row = 0, col = 0\<rparr>, IllegalMove ''11'' \<lparr>row = 1, col = 1\<rparr>]"
  "run_unparsable_first =
    (Inl \<lparr>message = ''Failed to parse LLM response: Error: out of range'',
          llmResponse = Some ''zz'', errorType = Some invalid_json,
          errorGameType = Some ''TicTacToe''\<rparr>,
     [\<lparr>prompt = ''Return your move.'', outcome = Unparsable ''zz'' ''Error: out of range''\<rparr>])"
  "map outcome (snd run_unparsable_second) =
    [IllegalMove ''00'' \<lparr>row = 0, col = 0\<rparr>, Unparsable ''7'' ''Error: not a move'']"
  "run_default_config =
    (Inl \<lparr>message = ''AI configuration is invalid: Model name is required'',
          llmResponse = None, errorType = None, errorGameType = None\<rparr>, [])"
  "run_fractional_row =
    (Inl \<lparr>message = ''TicTacToe LLM request failed: Cannot read properties of undefined'',
          llmResponse = Some ''No response'', errorType = Some connection_failed,
          errorGameType = Some ''TicTacToe''\<rparr>,
     [\<lparr>prompt = ''Return your move.'',
       outcome = CheckThrew ''h0'' \<lparr>row = 1 / 2, col = 0\<rparr>
         (thrownBy ''Cannot read properties of undefined'' TypeError)\<rparr>])"
  "map outcome (snd run_fractional_col) =
    [IllegalMove ''0h'' \<lparr>row = 0, col = 1 / 2\<rparr>, LegalMove ''02'' \<lparr>row = 0, col = 2\<rparr>]"
  by (code_simp)+

text \<open>
  The move schema admits a row of 0.5. The legality check then reads a row of the board
  that does not exist and throws; the call ends after this one attempt, with an error of
  the type \<open>connection_failed\<close>, although \<open>maxRetries\<close> is 3 and the next response of the
  backend would have been a legal move. A column of 0.5 names no cell: the move is
  illegal, and the call goes on to the next attempt.
\<close>

lemma generateMove_fractional_position:
  "example_parse ''h0'' = Inr (\<lparr>row = 1 / 2, col = 0\<rparr>, None) \<and>
   TicTacToe_isValidMove tictac_value_state \<lparr>row = 1 / 2, col = 0\<rparr> = Inl TypeError \<and>
   length (snd run_fractional_row) = 1 \<and>
   fst run_fractional_row =
     Inl \<lparr>message = ''TicTacToe LLM request failed: Cannot read properties of undefined'',
          llmResponse = Some ''No response'', errorType = Some connection_failed,
          errorGameType = Some ''TicTacToe''\<rparr> \<and>
   TicTacToe_isValidMove tictac_value_state \<lparr>row = 0, col = 1 / 2\<rparr> = Inr False \<and>
   map outcome (snd run_fractional_col) =
     [IllegalMove ''0h'' \<lparr>row = 0, col = 1 / 2\<rparr>, LegalMove ''02'' \<lparr>row = 0, col = 2\<rparr>]"
proof -
  have "example_parse ''h0'' = Inr (\<lparr>row = 1 / 2, col = 0\<rparr>, None)"
    by (simp add: example_parse_def example_number_def)
  moreover have "TicTacToe_isValidMove tictac_value_state \<lparr>row = 1 / 2, col = 0\<rparr> = Inl TypeError"
    by code_simp
  moreover have "length (snd run_fractional_row) = 1"
    by (subst example_runs(7)) simp
  moreover have "fst run_fractional_row =
     Inl \<lparr>message = ''TicTacToe LLM request failed: Cannot read properties of undefined'',
          llmResponse = Some ''No response'', errorType = Some connection_failed,
          errorGameType = Some ''TicTacToe''\<rparr>"
    by (subst example_runs(7)) simp
  moreover have "TicTacToe_isValidMove tictac_value_state \<lparr>row = 0, col = 1 / 2\<rparr> = Inr False"
    by code_simp
  ultimately show ?thesis using example_runs(8) by blast
qed

text \<open>
  Claim C1. The claim has a call of \<open>generateMove(state, maxRetries)\<close> go through exactly
  \<open>maxRetries\<close> legality failures before it raises the error of the type \<open>invalid_move\<close>.
  With \<open>maxRetries = 3\<close>, the default, and a backend whose every response is a move of the
  right shape onto an occupied cell, the code makes four attempts, not three: the four
  responses are the four legality failures of the call. It then raises the error of the
  type \<open>invalid_move\<close> with the fourth response, and the message of that error says
  \<open>Invalid move after 3 attempts\<close>.
\<close>

theorem generateMove_four_attempts_for_three:
  "run_four_illegal =
     generateMove (scripted_services openai_config [''00'', ''01'', ''10'', ''11''])
       tictactoe_llm tictac_value_state 3 [] [] \<and>
   list_all legalityFailure (snd run_four_illegal) \<and>
   length (snd run_four_illegal) = 4 \<and> length (snd run_four_illegal) \<noteq> 3 \<and>
   map rawResponse (snd run_four_illegal) = [Some ''00'', Some ''01'', Some ''10'', Some ''11''] \<and>
   fst run_four_illegal =
     Inl \<lparr>message = ''Invalid move after 3 attempts: Position (1,1) is already occupied by O'',
          llmResponse = Some ''11'', errorType = Some invalid_move,
          errorGameType = Some ''TicTacToe''\<rparr>"
proof -
  have o: "map outcome (snd run_four_illegal) =
    [IllegalMove ''00'' \<lparr>row = 0, col = 0\<rparr>, IllegalMove ''01'' \<lparr>row = 0, col = 1\<rparr>,
     IllegalMove ''10'' \<lparr>row = 1, col = 0\<rparr>, IllegalMove ''11'' \<lparr>row = 1, col = 1\<rparr>]"
    by (rule example_runs)
  then obtain a b c d where history: "snd run_four_illegal = [a, b, c, d]"
    "outcome a = IllegalMove ''00'' \<lparr>row = 0, col = 0\<rparr>"
    "outcome b = IllegalMove ''01'' \<lparr>row = 0, col = 1\<rparr>"
    "outcome c = IllegalMove ''10'' \<lparr>row = 1, col = 0\<rparr>"
    "outcome d = IllegalMove ''11'' \<lparr>row = 1, col = 1\<rparr>"
    by auto
  have "fst run_four_illegal =
     Inl \<lparr>message = ''Invalid move after 3 attempts: Position (1,1) is already occupied by O'',
          llmResponse = Some ''11'', errorType = Some invalid_move,
          errorGameType = Some ''TicTacToe''\<rparr>"
    by (subst example_runs(1)) simp
  moreover have "run_four_illegal =
     generateMove (scripted_services openai_config [''00'', ''01'', ''10'', ''11''])
       tictactoe_llm tictac_value_state 3 [] []"
    by (rule run_four_illegal_def)
  ultimately show ?thesis using history by (simp add: legalityFailure_def rawResponse_def)
qed

text \<open>
  Claim C2, as amended. In every call of \<open>generateMove\<close>, a response that fails to parse
  against the move schema ends the call at once, whatever is left of \<open>maxRetries\<close>: the
  attempt is the last one, and the call fails with an error with
  \<open>errorType = 'invalid_json'\<close> that carries the raw text of that response.
\<close>

theorem generateMove_parse_failure:
  assumes "generateMove sv game gameState maxRetries previousFailures [] = (res, history)"
    and "a \<in> set history"
    and "outcome a = Unparsable responseText parseError"
  shows "a = last history \<and>
         res = Inl \<lparr>message = ''Failed to parse LLM response: '' @ parseError,
                    llmResponse = Some responseText, errorType = Some invalid_json,
                    errorGameType = Some (llmGameType game)\<rparr>"
proof -
  from assms(2) have ne: "history \<noteq> []" by auto
  from generateMove_log [OF assms(1)] ne obtain llm where
    v: "fst (validateProviderConfig sv (providerConfig sv))"
    and l: "getCurrentLLM sv (providerConfig sv) = Inr llm"
    by auto
  from assms(3) have na: "\<not> legalityFailure a" by (simp add: legalityFailure_def)
  from generateMove_attempts [OF v l assms(1)]
  have but: "\<forall>x \<in> set (butlast history). legalityFailure x"
    and alt: "(\<forall>x \<in> set history. legalityFailure x) \<or> decides game gameState (outcome (last history)) res"
    by auto
  from alt na assms(2) have last: "decides game gameState (outcome (last history)) res" by blast
  from na but have "a \<notin> set (butlast history)" by blast
  moreover from ne have "history = butlast history @ [last history]" by simp
  ultimately have "a = last history" using assms(2)
    by (metis Un_iff empty_iff empty_set set_ConsD set_append)
  with last assms(3) show ?thesis by (simp add: decides_def)
qed

theorem generateMove_parse_failure_witness:
  "length (snd run_unparsable_second) = 2 \<and>
   outcome (snd run_unparsable_second ! 1) = Unparsable ''7'' ''Error: not a move'' \<and>
   snd run_unparsable_second ! 1 = last (snd run_unparsable_second) \<and>
   fst run_unparsable_second =
     Inl \<lparr>message = ''Failed to parse LLM response: Error: not a move'',
          llmResponse = Some ''7'', errorType = Some invalid_json,
          errorGameType = Some ''TicTacToe''\<rparr>"
proof -
  have o: "map outcome (snd run_unparsable_second) =
      [IllegalMove ''00'' \<lparr>row = 0, col = 0\<rparr>, Unparsable ''7'' ''Error: not a move'']"
    by (rule example_runs)
  then obtain a b where history: "snd run_unparsable_second = [a, b]"
    "outcome b = Unparsable ''7'' ''Error: not a move''"
    by auto
  then have mem: "snd run_unparsable_second ! 1 \<in> set (snd run_unparsable_second)"
    and out: "outcome (snd run_unparsable_second ! 1) = Unparsable ''7'' ''Error: not a move''"
    by simp_all
  have run: "generateMove (scripted_services openai_config [''00'', ''7'', ''02'']) tictactoe_llm
      tictac_value_state 3 [] [] = (fst run_unparsable_second, snd run_unparsable_second)"
    by (simp add: run_unparsable_second_def)
  from generateMove_parse_failure [OF run mem out] history out show ?thesis
    by (simp add: tictactoe_llm_def)
qed

text \<open>
  With \<open>maxRetries = 3\<close>, a first response that does not parse ends the call after one
  attempt, although the next response of the backend would have been a legal move.
\<close>

theorem generateMove_parse_failure_counterexample:
  "run_unparsable_first =
    (Inl \<lparr>message = ''Failed to parse LLM response: Error: out of range'',
          llmResponse = Some ''zz'', errorType = Some invalid_json,
          errorGameType = Some ''TicTacToe''\<rparr>,
     [\<lparr>prompt = ''Return your move.'', outcome = Unparsable ''zz'' ''Error: out of range''\<rparr>]) \<and>
   length (snd run_unparsable_first) = 1 \<and>
   scripted [''zz'', ''02''] 1 ''Return your move.'' = Inr ''02'' \<and>
   example_parse ''02'' = Inr (\<lparr>row = 0, col = 2\<rparr>, None) \<and>
   TicTacToe_isValidMove tictac_value_state \<lparr>row = 0, col = 2\<rparr> = Inr True"
proof -
  have r: "run_unparsable_first =
    (Inl \<lparr>message = ''Failed to parse LLM response: Error: out of range'',
          llmResponse = Some ''zz'', errorType = Some invalid_json,
          errorGameType = Some ''TicTacToe''\<rparr>,
     [\<lparr>prompt = ''Return your move.'', outcome = Unparsable ''zz'' ''Error: out of range''\<rparr>])"
    by (rule example_runs)
  have "length (snd run_unparsable_first) = 1" by (subst r) simp
  moreover have "scripted [''zz'', ''02''] 1 ''Return your move.'' = Inr ''02''"
    by (simp add: scripted_def)
  moreover have "example_parse ''02'' = Inr (\<lparr>row = 0, col = 2\<rparr>, None)"
    by (simp add: example_parse_def example_number_def)
  moreover have "TicTacToe_isValidMove tictac_value_state \<lparr>row = 0, col = 2\<rparr> = Inr True"
    by (simp add: TicTacToe_isValidMove_def tictac_value_state_def tictac_scenario_board_def
        js_at_def isInteger_def js_nth_def)
  ultimately show ?thesis using r by blast
qed

text \<open>
  Claim C3, as amended. When the current provider configuration fails validation,
  \<open>generateMove\<close> fails immediately, before any call of the backend and with no retry:
  no attempt is made, and the error is a plain \<open>Error\<close> with the message
  \<open>AI configuration is invalid:\<close> and the validation errors, whose \<open>errorType\<close> is not
  set.
\<close>

theorem generateMove_invalid_configuration:
  assumes "\<not> valid (LLMFactory_validateConfig (world sv) (googleProvider sv) (providerConfig sv))"
  shows "generateMove sv game gameState maxRetries previousFailures attempts =
    (Inl \<lparr>message = ''AI configuration is invalid: '' @ join '', ''
             (errors (LLMFactory_validateConfig (world sv) (googleProvider sv) (providerConfig sv))),
          llmResponse = None, errorType = None, errorGameType = None\<rparr>, attempts)"
proof -
  let ?v = "validateProviderConfig sv (providerConfig sv)"
  from assms have "\<not> fst ?v"
    and "snd ?v = errors (LLMFactory_validateConfig (world sv) (googleProvider sv) (providerConfig sv))"
    by (simp_all add: validateProviderConfig_def Let_def)
  then show ?thesis by (simp add: generateMove_invalid_config)
qed

theorem generateMove_invalid_configuration_witness:
  "\<not> valid (LLMFactory_validateConfig example_world example_google (openai_config\<lparr>apiKey := None\<rparr>)) \<and>
   run_no_api_key =
    (Inl \<lparr>message = ''AI configuration is invalid: API key is required'',
          llmResponse = None, errorType = None, errorGameType = None\<rparr>, [])"
proof -
  let ?sv = "scripted_services (openai_config\<lparr>apiKey := None\<rparr>) [''02'']"
  have v: "LLMFactory_validateConfig example_world example_google (openai_config\<lparr>apiKey := None\<rparr>) =
      \<lparr>valid = False, errors = [''API key is required''], warnings = None\<rparr>"
    by (simp add: LLMFactory_validateConfig_def getProvider_def providers_def openai_config_def
        OpenAI_validateConfig_def validationOf_def pushed_def validateRequired_def truthy_def
        js_trim_def js_space_def)
  have sel: "world ?sv = example_world" "googleProvider ?sv = example_google"
    "providerConfig ?sv = openai_config\<lparr>apiKey := None\<rparr>"
    by (simp_all add: scripted_services_def)
  have inv: "\<not> valid (LLMFactory_validateConfig (world ?sv) (googleProvider ?sv) (providerConfig ?sv))"
    by (simp add: sel v)
  from generateMove_invalid_configuration [OF inv, of tictactoe_llm tictac_value_state 3 "[]" "[]"]
  show ?thesis by (simp add: sel v run_no_api_key_def)
qed

text \<open>
  With the configuration the settings store starts with, which names no model, the error
  has no \<open>errorType\<close>; it is not \<open>config_error\<close>.
\<close>

theorem generateMove_invalid_configuration_counterexample:
  "\<not> valid (LLMFactory_validateConfig example_world example_google default_config) \<and>
   fst run_default_config =
     Inl \<lparr>message = ''AI configuration is invalid: Model name is required'',
          llmResponse = None, errorType = None, errorGameType = None\<rparr> \<and>
   (case fst run_default_config of
      Inl e \<Rightarrow> errorType e \<noteq> Some config_error
    | Inr r \<Rightarrow> False) \<and>
   snd run_default_config = []"
proof -
  have "\<not> valid (LLMFactory_validateConfig example_world example_google default_config)"
    by (simp add: LLMFactory_validateConfig_def getProvider_def providers_def
        default_config_def Ollama_validateConfig_def validationOf_def pushed_def
        validateRequired_def validateUrl_def truthy_def js_trim_def example_world_def)
  moreover have "fst run_default_config =
     Inl \<lparr>message = ''AI configuration is invalid: Model name is required'',
          llmResponse = None, errorType = None, errorGameType = None\<rparr>"
    and "snd run_default_config = []"
    unfolding example_runs(6) by simp_all
  moreover from this(1) have "case fst run_default_config of
      Inl e \<Rightarrow> errorType e \<noteq> Some config_error
    | Inr r \<Rightarrow> False"
    by (simp only: sum.case GameLLMError.simps) simp
  ultimately show ?thesis by blast
qed

section \<open>Properties of the game manager\<close>

text \<open>
  Claim C4, as amended. For every state and every move, \<open>processMove\<close> hands the legality
  check, the application of the move and the check for the end of the game to the handler
  registered for the game type of the state, and it throws the error \<open>Invalid move\<close>
  exactly when that handler rejects the move; with no handler for the game type it throws.
  The handlers registered for \<open>tictactoe\<close> and \<open>connect4\<close> accept every move, give the
  state back as it is and report no end of the game: for these game types \<open>processMove\<close>
  returns the given state unchanged, for every move.
\<close>

theorem processMove_delegates:
  "(gameHandlers (gameType s) = None \<longrightarrow>
      processMove gameHandlers s m =
        Inl (Error (''No handler registered for game type: '' @ gameType s))) \<and>
   (gameHandlers (gameType s) = Some h \<longrightarrow>
      (\<not> validateMove h s m \<longrightarrow> processMove gameHandlers s m = Inl (Error ''Invalid move'')) \<and>
      (validateMove h s m \<longrightarrow>
         processMove gameHandlers s m =
           Inr (if isEnded (checkGameEnd h (applyMove h s m))
                then (applyMove h s m)\<lparr>gameOver := True, status := completed,
                       game_winner := winner (checkGameEnd h (applyMove h s m))\<rparr>
                else applyMove h s m))) \<and>
   (gameType s = ''tictactoe'' \<or> gameType s = ''connect4'' \<longrightarrow>
      processMove registeredHandlers s m = Inr s)"
  by (auto simp: processMove_def Let_def registeredHandlers_def basicHandler_def)

theorem processMove_delegates_witness:
  "gameType tictac_value_state = ''tictactoe'' \<and>
   (registeredHandlers ::
      string \<Rightarrow> (TicTacBoardState TicTacToeLLMGameState, TicTacMoveData GameMove) GameHandler option)
      (gameType tictac_value_state) = Some basicHandler \<and>
   validateMove basicHandler tictac_value_state free_cell_move \<and>
   processMove registeredHandlers tictac_value_state free_cell_move = Inr tictac_value_state \<and>
   (registeredHandlers ::
      string \<Rightarrow> (TicTacBoardState TicTacToeLLMGameState, TicTacMoveData GameMove) GameHandler option)
      (gameType (tictac_value_state\<lparr>gameType := ''chess''\<rparr>)) = None \<and>
   processMove registeredHandlers (tictac_value_state\<lparr>gameType := ''chess''\<rparr>) free_cell_move =
     Inl (Error ''No handler registered for game type: chess'')"
proof -
  let ?H = "registeredHandlers ::
      string \<Rightarrow> (TicTacBoardState TicTacToeLLMGameState, TicTacMoveData GameMove) GameHandler option"
  let ?c = "tictac_value_state\<lparr>gameType := ''chess''\<rparr>"
  have g: "gameType tictac_value_state = ''tictactoe''"
    by (simp add: tictac_value_state_def)
  have h: "?H (gameType tictac_value_state) = Some basicHandler"
    by (simp add: g registeredHandlers_def)
  have v: "validateMove basicHandler tictac_value_state free_cell_move"
    by (simp add: basicHandler_def)
  have n: "?H (gameType ?c) = None"
    by (simp add: registeredHandlers_def)
  from processMove_delegates [of ?H tictac_value_state free_cell_move basicHandler] g
  have a: "processMove ?H tictac_value_state free_cell_move = Inr tictac_value_state"
    by blast
  from processMove_delegates [of ?H tictac_value_state free_cell_move basicHandler,
      THEN conjunct2, THEN conjunct1, THEN mp, OF h, THEN conjunct2, THEN mp, OF v]
  have a': "processMove ?H tictac_value_state free_cell_move = Inr tictac_value_state"
    by (simp add: basicHandler_def)
  from processMove_delegates [of ?H ?c free_cell_move basicHandler] n
  have b: "processMove ?H ?c free_cell_move =
      Inl (Error (''No handler registered for game type: '' @ gameType ?c))"
    by blast
  then have "processMove ?H ?c free_cell_move =
      Inl (Error ''No handler registered for game type: chess'')"
    by simp
  with g h v a n show ?thesis by blast
qed

text \<open>
  On the scenario board the cell (0,0) is taken and the cell (0,2) is free. The legality
  check of the tic-tac-toe handler rejects the first move and accepts the second, and
  \<open>processMove\<close> returns the unchanged state for both: the rejected move raises no error,
  and the accepted move changes nothing.
\<close>

theorem processMove_delegates_counterexample:
  "TicTacToe_isValidMove tictac_value_state (position (gameMoveData occupied_cell_move)) =
     Inr False \<and>
   processMove registeredHandlers tictac_value_state occupied_cell_move = Inr tictac_value_state \<and>
   TicTacToe_isValidMove tictac_value_state (position (gameMoveData free_cell_move)) =
     Inr True \<and>
   processMove registeredHandlers tictac_value_state free_cell_move = Inr tictac_value_state"
  by (simp add: processMove_def Let_def registeredHandlers_def basicHandler_def
      TicTacToe_isValidMove_def tictac_value_state_def tictac_scenario_board_def
      occupied_cell_move_def free_cell_move_def js_at_def isInteger_def js_nth_def)

end
